theory Spec2Isabelle
  imports Main "HOL-Library.Sublist"
begin

section \<open>Strings and thrown values\<close>

text \<open>
  JavaScript strings are modelled as HOL strings (lists of characters); every literal of
  the service is ASCII. \<open>s.includes(sub)\<close> is contiguous containment, written here as a
  scan over the start positions of \<open>s\<close>.
\<close>

fun str_includes :: "string \<Rightarrow> string \<Rightarrow> bool" where
  "str_includes [] sub = (sub = [])"
| "str_includes (c # cs) sub = (prefix sub (c # cs) \<or> str_includes cs sub)"

text \<open>
  A thrown value. The service reads two properties of it: \<open>error.message\<close> (absent on a
  value that is not an \<open>Error\<close>, such as the event a failed \<open>FileReader\<close> rejects with)
  and \<open>error.status\<close> (set by the SDK on an HTTP failure). \<open>err_name\<close> is the \<open>name\<close>
  property, which tells an \<open>Error\<close> made by the service from an exception of the host.
\<close>

record js_error =
  err_name :: "string option"
  message :: "string option"
  status :: "int option"

definition new_Error :: "string \<Rightarrow> js_error" where
  "new_Error msg = \<lparr>err_name = Some ''Error'', message = Some msg, status = None\<rparr>"

text \<open>\<open>error.message || ''\<close>: an absent (or empty) message reads as the empty string.\<close>

definition messageOrEmpty :: "js_error \<Rightarrow> string" where
  "messageOrEmpty error = (case message error of None \<Rightarrow> [] | Some m \<Rightarrow> m)"

section \<open>retryOperation\<close>

text \<open>The classification computed in the \<open>catch\<close> block of \<open>retryOperation\<close>.\<close>

definition isRetryable :: "js_error \<Rightarrow> bool" where
  "isRetryable error =
     (let msg = messageOrEmpty error in
        str_includes msg ''overloaded'' \<or>
        str_includes msg ''internal server issue'' \<or>
        str_includes msg ''429'' \<or>
        str_includes msg ''503'' \<or>
        str_includes msg ''500'' \<or>
        status error = Some 429 \<or>
        status error = Some 503 \<or>
        status error = Some 500)"

text \<open>
  The wrapped operation \<open>fn\<close> is effectful: it maps the state of the world to an outcome
  (\<open>Inl\<close> a thrown value, \<open>Inr\<close> the resolved value) and the state after the call. \<open>sleep\<close>
  is the effect of waiting the given number of milliseconds. The \<open>for\<close> loop runs over
  the attempt index \<open>i\<close>, starting at 0; \<open>retries\<close> and \<open>baseDelay\<close> are integers.
\<close>

function retryLoop ::
  "(int \<Rightarrow> 's \<Rightarrow> 's) \<Rightarrow> ('s \<Rightarrow> (js_error + 'a) \<times> 's) \<Rightarrow> int \<Rightarrow> int \<Rightarrow> nat \<Rightarrow> 's
     \<Rightarrow> (js_error + 'a) \<times> 's" where
  "retryLoop sleep fn retries baseDelay i s =
     (if int i < retries then
        (case fn s of
           (Inr v, s') \<Rightarrow> (Inr v, s')
         | (Inl error, s') \<Rightarrow>
             if \<not> isRetryable error \<or> int i = retries - 1 then (Inl error, s')
             else retryLoop sleep fn retries baseDelay (Suc i) (sleep (baseDelay * 2 ^ i) s'))
      else (Inl (new_Error ''Failed after max retries''), s))"
  by pat_completeness auto
termination
  by (relation "measure (\<lambda>(sleep, fn, retries, baseDelay, i, s). nat (retries - int i))") auto

text \<open>The exported wrapper: the loop started at attempt index 0.\<close>

definition retryOperation ::
  "(int \<Rightarrow> 's \<Rightarrow> 's) \<Rightarrow> ('s \<Rightarrow> (js_error + 'a) \<times> 's) \<Rightarrow> int \<Rightarrow> int \<Rightarrow> 's
     \<Rightarrow> (js_error + 'a) \<times> 's" where
  "retryOperation sleep fn retries baseDelay s = retryLoop sleep fn retries baseDelay 0 s"


section \<open>The data model\<close>

text \<open>
  \<open>File\<close> objects as the service reads them (\<open>file.type\<close> is the declared media type), the
  four upload slots of \<open>UploadedAssets\<close>, and \<open>GenerationConfig\<close>. The fields that TypeScript
  types as unions of string literals are strings at run time and are modelled as strings.
\<close>

record File =
  file_name :: string
  file_type :: string

record UploadedAssets =
  top :: "File option"
  bottom :: "File option"
  shoes :: "File option"
  accessories :: "File option"

record GenerationConfig =
  mode :: string
  prompt :: string
  gender :: string
  modelId :: string
  bodyType :: string
  cameraAngle :: string
  style :: string
  aspectRatio :: string
  materialDesc :: string

text \<open>The arguments of \<open>ai.models.generateVideos\<close>.\<close>

record image =
  imageBytes :: "string option"
  mimeType :: string

datatype VideoGenerationReferenceType = ASSET | STYLE

record referenceImage =
  ref_image :: image
  referenceType :: VideoGenerationReferenceType

record generateVideosConfig =
  numberOfVideos :: nat
  referenceImages :: "referenceImage list option"
  resolution :: string
  vc_aspectRatio :: string

record generateVideosParams =
  vp_model :: string
  vp_prompt :: string
  vp_image :: "image option"
  vp_config :: generateVideosConfig

text \<open>The long-running operation, with the optional chain that leads to the video URI.\<close>

record operationError =
  oe_message :: "string option"

record video =
  uri :: "string option"

record generatedVideo =
  gv_video :: "video option"

record generateVideosResponse =
  generatedVideos :: "generatedVideo list option"

record operation =
  op_name :: string
  op_done :: bool
  op_error :: "operationError option"
  op_response :: "generateVideosResponse option"

text \<open>Content parts, in the request and in the response of \<open>ai.models.generateContent\<close>.\<close>

record inlineData =
  inl_data :: "string option"
  inl_mimeType :: "string option"

record part =
  part_inlineData :: "inlineData option"
  part_text :: "string option"

record content =
  parts :: "part list option"

record candidate =
  cand_content :: "content option"

record generateContentResponse =
  candidates :: "candidate list option"

record imageConfig =
  ic_aspectRatio :: string
  imageSize :: string

record generateContentParams =
  gc_model :: string
  gc_parts :: "part list"
  gc_imageConfig :: imageConfig

record blob =
  blob_bytes :: "nat list"
  blob_type :: string

record fetchResponse =
  ok :: bool
  resp_status :: nat
  resp_blob :: "js_error + blob"

section \<open>The environment\<close>

text \<open>
  Every call that leaves the service is an event, and the state of the world is the list
  of events so far. The collaborators (the \<open>FileReader\<close>, the remote service, \<open>fetch\<close>,
  \<open>URL.createObjectURL\<close>) answer a call as a function of that history and of the call's
  argument, so an answer may change from one call to the next. \<open>atob\<close> is pure: it yields
  \<open>Inr\<close> the decoded string, or \<open>Inl\<close> the message of the \<open>InvalidCharacterError\<close> exception
  that the host throws on a string that is not base64 (the message is the host's).
  \<open>inheritedText key\<close> is what a plain object literal answers at a key that is not its
  own: \<open>Some\<close> the text of the inherited value in a template literal where
  \<open>Object.prototype\<close> has a truthy value at the key (\<open>constructor\<close>, \<open>toString\<close>, ...; the
  text of a native function is the host's), \<open>None\<close> otherwise. \<open>API_KEY\<close> is
  \<open>process.env.API_KEY\<close>. Console output is not modelled.
\<close>

datatype event =
    ReadAsDataURL File
  | GenerateVideos generateVideosParams
  | GetVideosOperation operation
  | GenerateContent generateContentParams
  | Fetch string
  | Sleep int
  | CreateObjectURL blob

record env =
  API_KEY :: "string option"
  readAsDataURL :: "event list \<Rightarrow> File \<Rightarrow> js_error + string"
  generateVideos :: "event list \<Rightarrow> generateVideosParams \<Rightarrow> js_error + operation"
  getVideosOperation :: "event list \<Rightarrow> operation \<Rightarrow> js_error + operation"
  generateContent :: "event list \<Rightarrow> generateContentParams \<Rightarrow> js_error + generateContentResponse"
  fetch :: "event list \<Rightarrow> string \<Rightarrow> js_error + fetchResponse"
  createObjectURL :: "event list \<Rightarrow> blob \<Rightarrow> string"
  atob :: "string \<Rightarrow> string + string"
  inheritedText :: "string \<Rightarrow> string option"

definition sleep :: "int \<Rightarrow> event list \<Rightarrow> event list" where
  "sleep ms h = h @ [Sleep ms]"

section \<open>checkApiKeySelection\<close>

text \<open>
  \<open>window.aistudio\<close> may be absent, and so may its \<open>hasSelectedApiKey\<close>; where present, the
  capability is given by the outcome of calling it.
\<close>

record AIStudio =
  hasSelectedApiKey :: "(js_error + bool) option"

record window =
  aistudio :: "AIStudio option"

definition checkApiKeySelection :: "window \<Rightarrow> js_error + bool" where
  "checkApiKeySelection w =
     (case aistudio w of
        None \<Rightarrow> Inr True
      | Some studio \<Rightarrow>
          (case hasSelectedApiKey studio of
             None \<Rightarrow> Inr True
           | Some outcome \<Rightarrow> outcome))"

section \<open>blobToBase64\<close>

text \<open>\<open>s.split(',')\<close> and indexing that yields \<open>undefined\<close> out of range.\<close>

fun split_comma :: "string \<Rightarrow> string list" where
  "split_comma [] = [[]]"
| "split_comma (c # cs) =
     (if c = CHR '','' then [] # split_comma cs
      else (case split_comma cs of
              [] \<Rightarrow> [[c]]
            | piece # pieces \<Rightarrow> (c # piece) # pieces))"

definition at_index :: "'a list \<Rightarrow> nat \<Rightarrow> 'a option" where
  "at_index xs i = (if i < length xs then Some (xs ! i) else None)"

definition blobToBase64 :: "env \<Rightarrow> File \<Rightarrow> event list \<Rightarrow> (js_error + string option) \<times> event list" where
  "blobToBase64 e blob h =
     (case readAsDataURL e h blob of
        Inl error \<Rightarrow> (Inl error, h @ [ReadAsDataURL blob])
      | Inr base64String \<Rightarrow> (Inr (at_index (split_comma base64String) 1), h @ [ReadAsDataURL blob]))"

section \<open>buildCommonPrompt\<close>

definition MODEL_DESCRIPTIONS :: "(string \<times> string) list" where
  "MODEL_DESCRIPTIONS =
     [(''sofia'', ''a Caucasian female model with blonde hair''),
      (''li'', ''an East Asian female model with black straight hair''),
      (''zara'', ''a Black female model with curly hair''),
      (''david'', ''a Caucasian male model with short brown hair''),
      (''ken'', ''an Asian male model with stylish short hair''),
      (''marcus'', ''a Black male model with athletic build'')]"

definition BODY_TYPE_PROMPTS :: "(string \<times> string) list" where
  "BODY_TYPE_PROMPTS =
     [(''slim'', ''slender and thin''),
      (''athletic'', ''muscular and athletic''),
      (''curvy'', ''curvy and voluptuous''),
      (''plus'', ''plus-size and full-figured''),
      (''tall'', ''very tall and statuesque''),
      (''petite'', ''petite and short'')]"

text \<open>
  \<open>table[key] || fallback\<close>: every value of the two tables is a non-empty string, so an
  own key yields its value; a key that the table inherits from \<open>Object.prototype\<close> yields
  the inherited value, which the template literal turns into text; any other key yields
  the fallback. An empty \<open>materialDesc\<close> is falsy.
\<close>

definition lookup :: "env \<Rightarrow> (string \<times> string) list \<Rightarrow> string \<Rightarrow> string option" where
  "lookup e table key =
     (case map_of table key of
        Some v \<Rightarrow> Some v
      | None \<Rightarrow> inheritedText e key)"

definition baseModelDesc :: "env \<Rightarrow> GenerationConfig \<Rightarrow> string" where
  "baseModelDesc e config =
     (case lookup e MODEL_DESCRIPTIONS (modelId config) of
        Some d \<Rightarrow> d
      | None \<Rightarrow> ''a '' @ gender config @ '' model'')"

definition bodyAdjective :: "env \<Rightarrow> GenerationConfig \<Rightarrow> string" where
  "bodyAdjective e config =
     (case lookup e BODY_TYPE_PROMPTS (bodyType config) of
        Some a \<Rightarrow> a
      | None \<Rightarrow> ''slender'')"

definition materialInstruction :: "GenerationConfig \<Rightarrow> string" where
  "materialInstruction config =
     (if materialDesc config \<noteq> []
      then ''The clothing is made of '' @ materialDesc config @
           ''. Accurately render the physical properties, weight, and texture of this material. ''
      else ''Preserve the exact fabric texture, material weight, and reflectivity of the original clothing. '')"

definition buildCommonPrompt :: "env \<Rightarrow> GenerationConfig \<Rightarrow> int \<Rightarrow> string" where
  "buildCommonPrompt e config assetCount =
     (let fullModelDesc = baseModelDesc e config @ '' with a '' @ bodyAdjective e config @ '' body type'';
          fullPrompt = ''Fashion content. '' @ fullModelDesc @ '' in a '' @ style config @ '' setting. '';
          fullPrompt' =
            (if assetCount > 1
             then fullPrompt @
                  ''The model is wearing the complete outfit composed of the provided clothing items (Top, Bottom, Shoes, and/or Accessories). '' @
                  materialInstruction config
             else fullPrompt @
                  ''The model is wearing the exact outfit shown in the input image. '' @
                  materialInstruction config)
      in fullPrompt' @ ''Camera Angle: '' @ cameraAngle config @
         ''. \<newline>  CRITICAL: Maintain high fidelity to the original clothing's texture and patterns. \<newline>  Lighting should highlight the fabric details. High resolution, photorealistic, highly detailed texture.'')"

section \<open>generateFashionVideo\<close>

text \<open>\<open>[...].filter(f => f !== undefined)\<close>: the populated slots, in the order of the array.\<close>

fun defined :: "'a option list \<Rightarrow> 'a list" where
  "defined [] = []"
| "defined (None # xs) = defined xs"
| "defined (Some x # xs) = x # defined xs"

definition orderedFiles :: "UploadedAssets \<Rightarrow> File list" where
  "orderedFiles assets = defined [top assets, bottom assets, shoes assets, accessories assets]"

text \<open>The arrow function handed to \<open>retryOperation\<close>: one call of the remote service.\<close>

definition callGenerateVideos ::
  "env \<Rightarrow> generateVideosParams \<Rightarrow> event list \<Rightarrow> (js_error + operation) \<times> event list" where
  "callGenerateVideos e params h = (generateVideos e h params, h @ [GenerateVideos params])"

text \<open>The \<open>for\<close> loop that fills \<open>referenceImagesPayload\<close>; a failed read leaves the loop.\<close>

fun encodeReferences ::
  "env \<Rightarrow> File list \<Rightarrow> referenceImage list \<Rightarrow> event list
     \<Rightarrow> (js_error + referenceImage list) \<times> event list" where
  "encodeReferences e [] referenceImagesPayload h = (Inr referenceImagesPayload, h)"
| "encodeReferences e (f # files) referenceImagesPayload h =
     (case blobToBase64 e f h of
        (Inl error, h') \<Rightarrow> (Inl error, h')
      | (Inr b64, h') \<Rightarrow>
          encodeReferences e files
            (referenceImagesPayload @
               [\<lparr>ref_image = \<lparr>imageBytes = b64, mimeType = file_type f\<rparr>, referenceType = ASSET\<rparr>])
            h')"

text \<open>The two object literals passed to \<open>generateVideos\<close>.\<close>

definition singleImageRequest ::
  "string \<Rightarrow> string option \<Rightarrow> File \<Rightarrow> GenerationConfig \<Rightarrow> generateVideosParams" where
  "singleImageRequest fullPrompt imageBase64 f config =
     \<lparr>vp_model = ''veo-3.1-fast-generate-preview'',
      vp_prompt = fullPrompt,
      vp_image = Some \<lparr>imageBytes = imageBase64, mimeType = file_type f\<rparr>,
      vp_config = \<lparr>numberOfVideos = 1, referenceImages = None,
                   resolution = ''720p'', vc_aspectRatio = aspectRatio config\<rparr>\<rparr>"

definition multiImageRequest :: "string \<Rightarrow> referenceImage list \<Rightarrow> generateVideosParams" where
  "multiImageRequest fullPrompt referenceImagesPayload =
     \<lparr>vp_model = ''veo-3.1-generate-preview'',
      vp_prompt = fullPrompt,
      vp_image = None,
      vp_config = \<lparr>numberOfVideos = 1, referenceImages = Some referenceImagesPayload,
                   resolution = ''720p'', vc_aspectRatio = ''16:9''\<rparr>\<rparr>"

text \<open>The two branches that create the operation (single image, multiple images).\<close>

definition createVideoOperation ::
  "env \<Rightarrow> File list \<Rightarrow> string \<Rightarrow> GenerationConfig \<Rightarrow> event list
     \<Rightarrow> (js_error + operation) \<times> event list" where
  "createVideoOperation e files fullPrompt config h =
     (if length files = 1 then
        (case blobToBase64 e (files ! 0) h of
           (Inl error, h') \<Rightarrow> (Inl error, h')
         | (Inr imageBase64, h') \<Rightarrow>
             retryOperation sleep
               (callGenerateVideos e (singleImageRequest fullPrompt imageBase64 (files ! 0) config))
               5 2000 h')
      else
        (let referenceFiles = take 3 files in
           case encodeReferences e referenceFiles [] h of
             (Inl error, h') \<Rightarrow> (Inl error, h')
           | (Inr referenceImagesPayload, h') \<Rightarrow>
               retryOperation sleep
                 (callGenerateVideos e (multiImageRequest fullPrompt referenceImagesPayload))
                 5 2000 h'))"

text \<open>The test in the \<open>catch\<close> block of the polling loop.\<close>

definition pollContinues :: "js_error \<Rightarrow> bool" where
  "pollContinues error =
     (let msg = messageOrEmpty error in
        str_includes msg ''overloaded'' \<or>
        str_includes msg ''internal server issue'' \<or>
        str_includes msg ''500'' \<or>
        str_includes msg ''503'')"

text \<open>
  The polling loop has no bound, so it is a partial function: \<open>None\<close> is a loop that never
  ends. Each round waits 5000 ms and refreshes the operation.
\<close>

partial_function (option) pollLoop ::
  "env \<Rightarrow> operation \<Rightarrow> event list \<Rightarrow> ((js_error + operation) \<times> event list) option" where
  "pollLoop e operation h =
     (if \<not> op_done operation then
        (case getVideosOperation e (sleep 5000 h) operation of
           Inr operation' \<Rightarrow> pollLoop e operation' (sleep 5000 h @ [GetVideosOperation operation])
         | Inl error \<Rightarrow>
             if pollContinues error
             then pollLoop e operation (sleep 5000 h @ [GetVideosOperation operation])
             else Some (Inl error, sleep 5000 h @ [GetVideosOperation operation]))
      else Some (Inr operation, h))"

text \<open>\<open>operation.response?.generatedVideos?.[0]?.video?.uri\<close>.\<close>

definition videoUri :: "operation \<Rightarrow> string option" where
  "videoUri operation =
     Option.bind (op_response operation) (\<lambda>response.
     Option.bind (generatedVideos response) (\<lambda>videos.
     Option.bind (at_index videos 0) (\<lambda>generated.
     Option.bind (gv_video generated) uri)))"

text \<open>A value in a template literal: \<open>undefined\<close> prints as the word, a number in decimal.\<close>

definition template_string :: "string option \<Rightarrow> string" where
  "template_string v = (case v of None \<Rightarrow> ''undefined'' | Some s \<Rightarrow> s)"

fun template_number :: "nat \<Rightarrow> string" where
  "template_number n =
     (if n < 10 then [''0123456789'' ! n]
      else template_number (n div 10) @ [''0123456789'' ! (n mod 10)])"

definition fetchVideo :: "env \<Rightarrow> string \<Rightarrow> event list \<Rightarrow> (js_error + blob) \<times> event list" where
  "fetchVideo e url h =
     (case fetch e h url of
        Inl error \<Rightarrow> (Inl error, h @ [Fetch url])
      | Inr videoResponse \<Rightarrow>
          if \<not> ok videoResponse
          then (Inl (new_Error (''Download failed: '' @ template_number (resp_status videoResponse))),
                h @ [Fetch url])
          else (resp_blob videoResponse, h @ [Fetch url]))"

text \<open>What follows the loop: the error payload, the URI, the download, the object URL.\<close>

definition downloadVideo ::
  "env \<Rightarrow> string \<Rightarrow> operation \<Rightarrow> event list \<Rightarrow> (js_error + string) \<times> event list" where
  "downloadVideo e apiKey operation h =
     (case op_error operation of
        Some payload \<Rightarrow>
          (Inl (new_Error (''Video generation failed: '' @ template_string (oe_message payload))), h)
      | None \<Rightarrow>
          (case videoUri operation of
             None \<Rightarrow> (Inl (new_Error ''No video URI returned.''), h)
           | Some u \<Rightarrow>
               if u = [] then (Inl (new_Error ''No video URI returned.''), h)
               else
                 (case retryOperation sleep (fetchVideo e (u @ ''&key='' @ apiKey)) 3 1000 h of
                    (Inl error, h') \<Rightarrow> (Inl error, h')
                  | (Inr videoBlob, h') \<Rightarrow>
                      (Inr (createObjectURL e h' videoBlob), h' @ [CreateObjectURL videoBlob]))))"

text \<open>The \<open>try\<close> block.\<close>

definition videoTry ::
  "env \<Rightarrow> string \<Rightarrow> File list \<Rightarrow> string \<Rightarrow> GenerationConfig \<Rightarrow> event list
     \<Rightarrow> ((js_error + string) \<times> event list) option" where
  "videoTry e apiKey files fullPrompt config h =
     (case createVideoOperation e files fullPrompt config h of
        (Inl error, h') \<Rightarrow> Some (Inl error, h')
      | (Inr operation, h') \<Rightarrow>
          (case pollLoop e operation h' of
             None \<Rightarrow> None
           | Some (Inl error, h'') \<Rightarrow> Some (Inl error, h'')
           | Some (Inr operation', h'') \<Rightarrow> Some (downloadVideo e apiKey operation' h'')))"

text \<open>The \<open>catch\<close> block: what is thrown in place of the caught value.\<close>

definition sessionExpired :: "js_error \<Rightarrow> bool" where
  "sessionExpired error =
     (case message error of
        None \<Rightarrow> False
      | Some m \<Rightarrow> str_includes m ''Requested entity was not found'' \<or> str_includes m ''404'')"

definition videoCatch :: "js_error \<Rightarrow> js_error" where
  "videoCatch error =
     (if sessionExpired error
      then new_Error ''API Key session expired or invalid. Please re-select your key.''
      else error)"

definition generateFashionVideo ::
  "env \<Rightarrow> UploadedAssets \<Rightarrow> GenerationConfig \<Rightarrow> event list
     \<Rightarrow> ((js_error + string) \<times> event list) option" where
  "generateFashionVideo e assets config h =
     (case API_KEY e of
        None \<Rightarrow> Some (Inl (new_Error ''API Key not found.''), h)
      | Some apiKey \<Rightarrow>
          if apiKey = [] then Some (Inl (new_Error ''API Key not found.''), h)
          else if length (orderedFiles assets) = 0
          then Some (Inl (new_Error ''Please upload at least one image.''), h)
          else
            (let fullPrompt = buildCommonPrompt e config (int (length (orderedFiles assets)))
                                @ '' Generate a cinematic video.''
             in case videoTry e apiKey (orderedFiles assets) fullPrompt config h of
                  None \<Rightarrow> None
                | Some (Inl error, h') \<Rightarrow> Some (Inl (videoCatch error), h')
                | Some (Inr url, h') \<Rightarrow> Some (Inr url, h')))"

section \<open>generateFashionImage\<close>

text \<open>The \<open>for\<close> loop that fills \<open>parts\<close> with one inline image per file.\<close>

fun encodeParts ::
  "env \<Rightarrow> File list \<Rightarrow> part list \<Rightarrow> event list \<Rightarrow> (js_error + part list) \<times> event list" where
  "encodeParts e [] ps h = (Inr ps, h)"
| "encodeParts e (f # files) ps h =
     (case blobToBase64 e f h of
        (Inl error, h') \<Rightarrow> (Inl error, h')
      | (Inr b64, h') \<Rightarrow>
          encodeParts e files
            (ps @ [\<lparr>part_inlineData = Some \<lparr>inl_data = b64, inl_mimeType = Some (file_type f)\<rparr>,
                    part_text = None\<rparr>])
            h')"

definition callGenerateContent ::
  "env \<Rightarrow> generateContentParams \<Rightarrow> event list \<Rightarrow> (js_error + generateContentResponse) \<times> event list" where
  "callGenerateContent e params h = (generateContent e h params, h @ [GenerateContent params])"

text \<open>
  The exception \<open>atob\<close> throws on a string that is not base64: a \<open>DOMException\<close> of the
  name \<open>InvalidCharacterError\<close>, with the host's message.
\<close>

definition InvalidCharacterError :: "string \<Rightarrow> js_error" where
  "InvalidCharacterError msg =
     \<lparr>err_name = Some ''InvalidCharacterError'', message = Some msg, status = None\<rparr>"

text \<open>
  The body of \<open>if (part.inlineData)\<close>: decode, copy the char codes into a byte array, wrap
  them in a \<open>Blob\<close> and return its object URL.
\<close>

definition imageFromInline ::
  "env \<Rightarrow> inlineData \<Rightarrow> event list \<Rightarrow> (js_error + string) \<times> event list" where
  "imageFromInline e inl h =
     (let base64Data = template_string (inl_data inl);
          mimeType' = (case inl_mimeType inl of
                         None \<Rightarrow> ''image/png''
                       | Some t \<Rightarrow> if t = [] then ''image/png'' else t)
      in case atob e base64Data of
           Inl msg \<Rightarrow> (Inl (InvalidCharacterError msg), h)
         | Inr binary \<Rightarrow>
             (let b = \<lparr>blob_bytes = map (\<lambda>c. of_char c mod 256) binary, blob_type = mimeType'\<rparr>
              in (Inr (createObjectURL e h b), h @ [CreateObjectURL b])))"

text \<open>
  The two nested \<open>for\<close> loops. \<open>None\<close> means that the loop ran to its end; \<open>Some\<close> is the
  \<open>return\<close> (or the exception) that left it.
\<close>

fun scanParts :: "env \<Rightarrow> part list \<Rightarrow> event list \<Rightarrow> ((js_error + string) \<times> event list) option" where
  "scanParts e [] h = None"
| "scanParts e (p # ps) h =
     (case part_inlineData p of
        Some inl \<Rightarrow> Some (imageFromInline e inl h)
      | None \<Rightarrow> scanParts e ps h)"

fun scanCandidates ::
  "env \<Rightarrow> candidate list \<Rightarrow> event list \<Rightarrow> ((js_error + string) \<times> event list) option" where
  "scanCandidates e [] h = None"
| "scanCandidates e (c # cs) h =
     (case cand_content c of
        None \<Rightarrow> scanCandidates e cs h
      | Some ct \<Rightarrow>
          (case parts ct of
             None \<Rightarrow> scanCandidates e cs h
           | Some ps \<Rightarrow>
               (case scanParts e ps h of
                  Some r \<Rightarrow> Some r
                | None \<Rightarrow> scanCandidates e cs h)))"

definition extractImage ::
  "env \<Rightarrow> generateContentResponse \<Rightarrow> event list \<Rightarrow> (js_error + string) \<times> event list" where
  "extractImage e response h =
     (case candidates response of
        None \<Rightarrow> (Inl (new_Error ''No image data found in response.''), h)
      | Some cs \<Rightarrow>
          (case scanCandidates e cs h of
             Some r \<Rightarrow> r
           | None \<Rightarrow> (Inl (new_Error ''No image data found in response.''), h)))"

text \<open>The \<open>catch\<close> block of the image path logs the value and throws it again.\<close>

definition imageCatch :: "js_error \<Rightarrow> js_error" where
  "imageCatch error = error"

text \<open>The object literal passed to \<open>generateContent\<close>.\<close>

definition imageRequest :: "part list \<Rightarrow> GenerationConfig \<Rightarrow> generateContentParams" where
  "imageRequest ps config =
     \<lparr>gc_model = ''gemini-3-pro-image-preview'',
      gc_parts = ps,
      gc_imageConfig =
        \<lparr>ic_aspectRatio = (if aspectRatio config = ''16:9'' then ''16:9'' else ''9:16''),
         imageSize = ''2K''\<rparr>\<rparr>"

definition imageTry ::
  "env \<Rightarrow> part list \<Rightarrow> GenerationConfig \<Rightarrow> event list \<Rightarrow> (js_error + string) \<times> event list" where
  "imageTry e ps config h =
     (case retryOperation sleep (callGenerateContent e (imageRequest ps config)) 5 2000 h of
        (Inl error, h') \<Rightarrow> (Inl error, h')
      | (Inr response, h') \<Rightarrow> extractImage e response h')"

definition generateFashionImage ::
  "env \<Rightarrow> UploadedAssets \<Rightarrow> GenerationConfig \<Rightarrow> event list \<Rightarrow> (js_error + string) \<times> event list" where
  "generateFashionImage e assets config h =
     (case API_KEY e of
        None \<Rightarrow> (Inl (new_Error ''API Key not found.''), h)
      | Some apiKey \<Rightarrow>
          if apiKey = [] then (Inl (new_Error ''API Key not found.''), h)
          else if length (orderedFiles assets) = 0
          then (Inl (new_Error ''Please upload at least one image.''), h)
          else
            (let fullPrompt = buildCommonPrompt e config (int (length (orderedFiles assets)))
                                @ '' Generate a high-quality fashion photograph.''
             in case encodeParts e (orderedFiles assets) [] h of
                  (Inl error, h') \<Rightarrow> (Inl error, h')
                | (Inr ps, h') \<Rightarrow>
                    (case imageTry e (ps @ [\<lparr>part_inlineData = None, part_text = Some fullPrompt\<rparr>])
                            config h' of
                       (Inl error, h'') \<Rightarrow> (Inl (imageCatch error), h'')
                     | (Inr url, h'') \<Rightarrow> (Inr url, h''))))"

section \<open>Vocabulary of the statements\<close>

text \<open>
  Runs of \<open>retryOperation\<close>. \<open>attemptState wait fn baseDelay s k\<close> is the state in which
  invocation number \<open>k\<close> (counted from 0) starts when all earlier ones have been retried:
  each earlier invocation \<open>j\<close> is followed by a wait of \<open>baseDelay * 2 ^ j\<close> milliseconds.
  \<open>failsTransiently fn s\<close> says that the invocation started in \<open>s\<close> throws a value that the
  wrapper classifies as retryable.
\<close>

fun attemptState ::
  "(int \<Rightarrow> 's \<Rightarrow> 's) \<Rightarrow> ('s \<Rightarrow> (js_error + 'a) \<times> 's) \<Rightarrow> int \<Rightarrow> 's \<Rightarrow> nat \<Rightarrow> 's" where
  "attemptState wait fn baseDelay s 0 = s"
| "attemptState wait fn baseDelay s (Suc k) =
     wait (baseDelay * 2 ^ k) (snd (fn (attemptState wait fn baseDelay s k)))"

definition failsTransiently :: "('s \<Rightarrow> (js_error + 'a) \<times> 's) \<Rightarrow> 's \<Rightarrow> bool" where
  "failsTransiently fn s = (case fst (fn s) of Inl error \<Rightarrow> isRetryable error | Inr v \<Rightarrow> False)"

text \<open>
  A counting test double: the outcome of invocation number \<open>k\<close> is \<open>outcomes k\<close>, and the
  state records how often the operation was invoked and which delays were waited.
\<close>

record probe =
  calls :: nat
  delays :: "int list"

definition probe_fn :: "(nat \<Rightarrow> js_error + 'a) \<Rightarrow> probe \<Rightarrow> (js_error + 'a) \<times> probe" where
  "probe_fn outcomes p = (outcomes (calls p), p\<lparr>calls := Suc (calls p)\<rparr>)"

definition probe_sleep :: "int \<Rightarrow> probe \<Rightarrow> probe" where
  "probe_sleep ms p = p\<lparr>delays := delays p @ [ms]\<rparr>"

text \<open>
  Sequences of refresh responses. \<open>pollCount h\<close> is the number of refresh calls in a
  history; \<open>answersPolls e h rs\<close> says that the refresh calls made after \<open>h\<close> are answered,
  in order, by the elements of \<open>rs\<close>.
\<close>

fun isPoll :: "event \<Rightarrow> bool" where
  "isPoll (GetVideosOperation operation) = True"
| "isPoll ev = False"

fun isCreation :: "event \<Rightarrow> bool" where
  "isCreation (GenerateVideos params) = True"
| "isCreation ev = False"

definition pollCount :: "event list \<Rightarrow> nat" where
  "pollCount h = length (filter isPoll h)"

definition answersPolls :: "env \<Rightarrow> event list \<Rightarrow> (js_error + operation) list \<Rightarrow> bool" where
  "answersPolls e h rs =
     (\<forall>k < length rs. \<forall>h' operation.
        pollCount h' = pollCount h + k \<longrightarrow> getVideosOperation e h' operation = rs ! k)"

text \<open>A response the loop polls through: a tolerated failure, or an operation not yet done.\<close>

definition keepsPolling :: "js_error + operation \<Rightarrow> bool" where
  "keepsPolling r = (case r of Inl error \<Rightarrow> pollContinues error | Inr operation \<Rightarrow> \<not> op_done operation)"

text \<open>All content parts of a response: candidates in order, and the parts of each in order.\<close>

definition candidateParts :: "candidate \<Rightarrow> part list" where
  "candidateParts c =
     (case cand_content c of
        None \<Rightarrow> []
      | Some ct \<Rightarrow> (case parts ct of None \<Rightarrow> [] | Some ps \<Rightarrow> ps))"

definition responseParts :: "generateContentResponse \<Rightarrow> part list" where
  "responseParts response =
     (case candidates response of
        None \<Rightarrow> []
      | Some cs \<Rightarrow> concat (map candidateParts cs))"

text \<open>
  Histories. \<open>extends Q h h'\<close> says that \<open>h'\<close> is \<open>h\<close> followed by events that all satisfy
  \<open>Q\<close>; \<open>creationCalls h\<close> lists the arguments of the \<open>generateVideos\<close> calls in \<open>h\<close>, in
  order.
\<close>

fun isSleep :: "event \<Rightarrow> bool" where
  "isSleep (Sleep ms) = True"
| "isSleep ev = False"

definition extends :: "(event \<Rightarrow> bool) \<Rightarrow> event list \<Rightarrow> event list \<Rightarrow> bool" where
  "extends Q h h' = (\<exists>t. h' = h @ t \<and> list_all Q t)"

fun creationCalls :: "event list \<Rightarrow> generateVideosParams list" where
  "creationCalls [] = []"
| "creationCalls (GenerateVideos params # h) = params # creationCalls h"
| "creationCalls (ev # h) = creationCalls h"

text \<open>
  The prompt builder embeds four fields of the configuration verbatim: the gender (in the
  fallback persona), the style, the material description and the camera angle; and where
  \<open>modelId\<close> or \<open>bodyType\<close> is a key that the tables inherit, it embeds the text of the
  inherited value. \<open>mentions e config phrase\<close> says that one of these texts contains the
  phrase. \<open>fidelity\<close> is the fixed text that closes every prompt.
\<close>

definition inheritedMentions :: "env \<Rightarrow> string \<Rightarrow> string \<Rightarrow> bool" where
  "inheritedMentions e key phrase =
     (case inheritedText e key of None \<Rightarrow> False | Some t \<Rightarrow> str_includes t phrase)"

definition mentions :: "env \<Rightarrow> GenerationConfig \<Rightarrow> string \<Rightarrow> bool" where
  "mentions e config phrase =
     (str_includes (gender config) phrase \<or> str_includes (style config) phrase \<or>
      str_includes (materialDesc config) phrase \<or> str_includes (cameraAngle config) phrase \<or>
      inheritedMentions e (modelId config) phrase \<or> inheritedMentions e (bodyType config) phrase)"

definition fidelity :: string where
  "fidelity = ''\<newline>  CRITICAL: Maintain high fidelity to the original clothing's texture and patterns. \<newline>  Lighting should highlight the fabric details. High resolution, photorealistic, highly detailed texture.''"

section \<open>Concrete scenarios\<close>

text \<open>
  A configuration, four files and an environment for the closed examples. The
  environment holds a key, reads every file (the payload of a file is its name), starts
  a pending operation, answers the refresh calls from a script, and serves the download.
  Its \<open>atob\<close> is a base64 decoder (white space dropped, padding optional, a length of
  1 modulo 4 or a character outside the alphabet rejected), and its \<open>inheritedText\<close> knows
  the properties of \<open>Object.prototype\<close>, with the text V8 gives a native function.
\<close>

definition base64_alphabet :: string where
  "base64_alphabet = ''ABCDEFGHIJKLMNOPQRSTUVWXYZabcdefghijklmnopqrstuvwxyz0123456789+/''"

fun index_of :: "'a \<Rightarrow> 'a list \<Rightarrow> nat option" where
  "index_of x [] = None"
| "index_of x (y # ys) = (if x = y then Some 0 else map_option Suc (index_of x ys))"

fun sextets :: "string \<Rightarrow> nat list option" where
  "sextets [] = Some []"
| "sextets (c # cs) =
     (case index_of c base64_alphabet of
        None \<Rightarrow> None
      | Some v \<Rightarrow> map_option ((#) v) (sextets cs))"

fun octets :: "nat list \<Rightarrow> nat list" where
  "octets (a # b # c # d # rest) =
     (a * 4 + b div 16) # (b mod 16 * 16 + c div 4) # (c mod 4 * 64 + d) # octets rest"
| "octets [a, b, c] = [a * 4 + b div 16, b mod 16 * 16 + c div 4]"
| "octets [a, b] = [a * 4 + b div 16]"
| "octets rest = []"

fun drop_padding :: "string \<Rightarrow> string" where
  "drop_padding (c # d # r) =
     (if c = CHR ''='' then (if d = CHR ''='' then r else d # r) else c # d # r)"
| "drop_padding r = (if r = ''='' then [] else r)"

definition strip_padding :: "string \<Rightarrow> string" where
  "strip_padding s = (if length s mod 4 = 0 then rev (drop_padding (rev s)) else s)"

definition demo_atob :: "string \<Rightarrow> string + string" where
  "demo_atob s =
     (let data = strip_padding (filter (\<lambda>c. c \<notin> set [CHR 0x09, CHR 0x0A, CHR 0x0C, CHR 0x0D, CHR '' '']) s)
      in if length data mod 4 = 1
         then Inl ''The string to be decoded is not correctly encoded.''
         else (case sextets data of
                 None \<Rightarrow> Inl ''The string to be decoded is not correctly encoded.''
               | Some vs \<Rightarrow> Inr (map char_of (octets vs))))"

definition demo_inherited :: "string \<Rightarrow> string option" where
  "demo_inherited key =
     (if key = ''__proto__'' then Some ''[object Object]''
      else if key \<in> set [''constructor'', ''hasOwnProperty'', ''isPrototypeOf'',
                          ''propertyIsEnumerable'', ''toLocaleString'', ''toString'', ''valueOf'',
                          ''__defineGetter__'', ''__defineSetter__'', ''__lookupGetter__'',
                          ''__lookupSetter__'']
      then Some (''function '' @ (if key = ''constructor'' then ''Object'' else key) @ ''() { [native code] }'')
      else None)"

definition demo_config :: GenerationConfig where
  "demo_config =
     \<lparr>mode = ''video'', prompt = [], gender = ''female'', modelId = ''sofia'',
      bodyType = ''slim'', cameraAngle = ''Eye level shot'', style = ''studio'',
      aspectRatio = ''9:16'', materialDesc = []\<rparr>"

definition shirt :: File where
  "shirt = \<lparr>file_name = ''shirt'', file_type = ''image/png''\<rparr>"

definition jeans :: File where
  "jeans = \<lparr>file_name = ''jeans'', file_type = ''image/jpeg''\<rparr>"

definition boots :: File where
  "boots = \<lparr>file_name = ''boots'', file_type = ''image/webp''\<rparr>"

definition scarf :: File where
  "scarf = \<lparr>file_name = ''scarf'', file_type = ''image/gif''\<rparr>"

definition no_assets :: UploadedAssets where
  "no_assets = \<lparr>top = None, bottom = None, shoes = None, accessories = None\<rparr>"

definition all_assets :: UploadedAssets where
  "all_assets = \<lparr>top = Some shirt, bottom = Some jeans, shoes = Some boots, accessories = Some scarf\<rparr>"

definition pending_operation :: operation where
  "pending_operation = \<lparr>op_name = ''op'', op_done = False, op_error = None, op_response = None\<rparr>"

definition finished_operation :: "string \<Rightarrow> operation" where
  "finished_operation u =
     \<lparr>op_name = ''op'', op_done = True, op_error = None,
      op_response = Some \<lparr>generatedVideos = Some [\<lparr>gv_video = Some \<lparr>uri = Some u\<rparr>\<rparr>]\<rparr>\<rparr>"

definition failed_operation :: "string \<Rightarrow> operation" where
  "failed_operation m =
     \<lparr>op_name = ''op'', op_done = True, op_error = Some \<lparr>oe_message = Some m\<rparr>,
      op_response = None\<rparr>"

definition scripted :: "'a list \<Rightarrow> 'a \<Rightarrow> nat \<Rightarrow> 'a" where
  "scripted rs d k = (if k < length rs then rs ! k else d)"

definition demo_env :: "(js_error + operation) list \<Rightarrow> env" where
  "demo_env polls =
     \<lparr>API_KEY = Some ''k'',
      readAsDataURL = (\<lambda>h f. Inr (''data:'' @ file_type f @ '';base64,'' @ file_name f)),
      generateVideos = (\<lambda>h params. Inr pending_operation),
      getVideosOperation = (\<lambda>h operation. scripted polls (Inr pending_operation) (pollCount h)),
      generateContent = (\<lambda>h params. Inr \<lparr>candidates = None\<rparr>),
      fetch = (\<lambda>h url. Inr \<lparr>ok = True, resp_status = 200,
                              resp_blob = Inr \<lparr>blob_bytes = [0, 0, 0, 24], blob_type = ''video/mp4''\<rparr>\<rparr>),
      createObjectURL = (\<lambda>h b. ''blob:'' @ blob_type b),
      atob = demo_atob,
      inheritedText = demo_inherited\<rparr>"

text \<open>
  Two responses of the image model. The first has a candidate without content, one with a
  text part only, and one whose parts are a text and two inline images. In the second,
  an inline part whose data is not base64 comes before one whose data is.
\<close>

definition text_part :: "string \<Rightarrow> part" where
  "text_part t = \<lparr>part_inlineData = None, part_text = Some t\<rparr>"

definition inline_part :: "string \<Rightarrow> string \<Rightarrow> part" where
  "inline_part d t = \<lparr>part_inlineData = Some \<lparr>inl_data = Some d, inl_mimeType = Some t\<rparr>, part_text = None\<rparr>"

definition image_response :: generateContentResponse where
  "image_response =
     \<lparr>candidates = Some
        [\<lparr>cand_content = None\<rparr>,
         \<lparr>cand_content = Some \<lparr>parts = Some [text_part ''Here is the photograph.'']\<rparr>\<rparr>,
         \<lparr>cand_content = Some \<lparr>parts = Some [text_part ''Look:'', inline_part ''QUJD'' ''image/jpeg'',
                                               inline_part ''REVG'' ''image/webp'']\<rparr>\<rparr>]\<rparr>"

definition broken_response :: generateContentResponse where
  "broken_response =
     \<lparr>candidates = Some
        [\<lparr>cand_content = Some \<lparr>parts = Some [inline_part ''%%%'' ''image/png'',
                                               inline_part ''QUJD'' ''image/jpeg'']\<rparr>\<rparr>]\<rparr>"

text \<open>
  Three operations for the counting test double: one that fails twice with a 503 and then
  succeeds, one that always fails with a 400, and one that always fails with a 429. And an
  environment whose generation calls are all rejected with a given error.
\<close>

definition fails_twice :: "nat \<Rightarrow> js_error + nat" where
  "fails_twice k = (if k < 2 then Inl (new_Error ''503 Service Unavailable'') else Inr 7)"

definition bad_request :: "nat \<Rightarrow> js_error + nat" where
  "bad_request k = Inl (new_Error ''400 Bad Request'')"

definition rate_limited :: "nat \<Rightarrow> js_error + nat" where
  "rate_limited k = Inl (new_Error ''429 Too Many Requests'')"

definition rejecting_env :: "js_error \<Rightarrow> env" where
  "rejecting_env error =
     (demo_env [])\<lparr>generateVideos := (\<lambda>h params. Inl error),
                   generateContent := (\<lambda>h params. Inl error)\<rparr>"

text \<open>The environment whose image model resolves with a given response.\<close>

definition image_env :: "generateContentResponse \<Rightarrow> env" where
  "image_env response = (demo_env [])\<lparr>generateContent := (\<lambda>h params. Inr response)\<rparr>"

section \<open>Properties\<close>

subsection \<open>Helper facts\<close>

declare retryLoop.simps [simp del]

declare template_number.simps [simp del]

lemma str_includes_sublist: "str_includes s sub = sublist sub s"
  by (induction s) (auto simp: sublist_Cons_right)

text \<open>
  The loop, entered at attempt \<open>i\<close> in the state in which that attempt starts, returns what
  invocation \<open>j\<close> returns, where \<open>j\<close> is the first attempt from \<open>i\<close> on that does not fail
  transiently, or the last attempt there is.
\<close>

lemma retryLoop_stops:
  assumes "i \<le> j" and "int j < retries"
    and "\<forall>k. i \<le> k \<and> k < j \<longrightarrow> failsTransiently fn (attemptState wait fn b s k)"
    and "\<not> failsTransiently fn (attemptState wait fn b s j) \<or> int j = retries - 1"
  shows "retryLoop wait fn retries b i (attemptState wait fn b s i) = fn (attemptState wait fn b s j)"
  using assms
proof (induction "j - i" arbitrary: i)
  case 0
  then have ij: "i = j" by simp
  show ?case
    using 0(3,5) unfolding ij
    by (subst retryLoop.simps) (auto simp: failsTransiently_def split: prod.splits sum.splits)
next
  case (Suc d)
  then have lt: "i < j" by simp
  with Suc.prems have ft: "failsTransiently fn (attemptState wait fn b s i)" by simp
  have rec: "retryLoop wait fn retries b (Suc i) (attemptState wait fn b s (Suc i))
      = fn (attemptState wait fn b s j)"
    using Suc.hyps(2) lt Suc.prems by (intro Suc.hyps(1)) auto
  from lt Suc.prems(2) have "int i < retries" "int i \<noteq> retries - 1" by auto
  with ft rec show ?case
    by (subst retryLoop.simps) (auto simp: failsTransiently_def split: prod.splits sum.splits)
qed

subsection \<open>Histories of a video run\<close>

lemma extends_refl: "extends Q h h"
  by (simp add: extends_def)

lemma extends_trans: "extends Q h h1 \<Longrightarrow> extends Q h1 h2 \<Longrightarrow> extends Q h h2"
  by (auto simp: extends_def)

lemma extends_step: "Q ev \<Longrightarrow> extends Q h (h @ [ev])"
  by (simp add: extends_def)

lemma extends_weaken: "extends Q h h' \<Longrightarrow> (\<And>ev. Q ev \<Longrightarrow> R ev) \<Longrightarrow> extends R h h'"
  by (auto simp: extends_def list_all_iff)

lemma retryLoop_extends:
  "retryLoop wait fn retries b i h = (r, h') \<Longrightarrow>
   (\<And>s r s'. fn s = (r, s') \<Longrightarrow> extends Q s s') \<Longrightarrow>
   (\<And>ms s. extends Q s (wait ms s)) \<Longrightarrow> extends Q h h'"
proof (induction wait fn retries b i h arbitrary: r h' rule: retryLoop.induct)
  case (1 wait fn retries b i s)
  show ?case
  proof (cases "int i < retries")
    case False
    with "1.prems"(1) show ?thesis
      by (subst (asm) retryLoop.simps) (simp add: extends_refl)
  next
    case True
    obtain x y where xy: "fn s = (x, y)" by (cases "fn s")
    have sy: "extends Q s y" using "1.prems"(2) xy by simp
    show ?thesis
    proof (cases x)
      case (Inr v)
      with True xy "1.prems"(1) sy show ?thesis
        by (subst (asm) retryLoop.simps) auto
    next
      case (Inl a)
      show ?thesis
      proof (cases "\<not> isRetryable a \<or> int i = retries - 1")
        case stop: True
        with True xy Inl "1.prems"(1) sy show ?thesis
          by (subst (asm) retryLoop.simps) auto
      next
        case go: False
        with True xy Inl "1.prems"(1)
        have rec: "retryLoop wait fn retries b (Suc i) (wait (b * 2 ^ i) y) = (r, h')"
          by (subst (asm) retryLoop.simps) auto
        have "extends Q (wait (b * 2 ^ i) y) h'"
          using "1.IH" [OF True xy [symmetric] Inl go rec] "1.prems"(2,3) by simp
        with sy "1.prems"(3) [of y "b * 2 ^ i"] show ?thesis
          by (blast intro: extends_trans)
      qed
    qed
  qed
qed

lemma pollLoop_extends:
  assumes "pollLoop e operation h = Some y"
  shows "extends (\<lambda>ev. isSleep ev \<or> isPoll ev) h (snd y)"
proof (rule pollLoop.raw_induct
    [where P = "\<lambda>e operation h y. extends (\<lambda>ev. isSleep ev \<or> isPoll ev) h (snd y)", OF _ assms])
  fix loop e operation h y
  assume IH: "\<And>e' operation' h' y'. loop e' operation' h' = Some y'
      \<Longrightarrow> extends (\<lambda>ev. isSleep ev \<or> isPoll ev) h' (snd y')"
    and body: "(if \<not> op_done operation then
        (case getVideosOperation e (sleep 5000 h) operation of
           Inr operation' \<Rightarrow> loop e operation' (sleep 5000 h @ [GetVideosOperation operation])
         | Inl error \<Rightarrow>
             if pollContinues error
             then loop e operation (sleep 5000 h @ [GetVideosOperation operation])
             else Some (Inl error, sleep 5000 h @ [GetVideosOperation operation]))
      else Some (Inr operation, h)) = Some y"
  have two: "extends (\<lambda>ev. isSleep ev \<or> isPoll ev) h (sleep 5000 h @ [GetVideosOperation operation])"
    by (simp add: extends_def sleep_def)
  show "extends (\<lambda>ev. isSleep ev \<or> isPoll ev) h (snd y)"
  proof (cases "op_done operation")
    case True
    with body have "snd y = h" by auto
    then show ?thesis by (simp add: extends_refl)
  next
    case False
    show ?thesis
    proof (cases "getVideosOperation e (sleep 5000 h) operation")
      case (Inr operation')
      with False body have "loop e operation' (sleep 5000 h @ [GetVideosOperation operation]) = Some y"
        by simp
      from IH [OF this] two show ?thesis by (rule extends_trans [rotated])
    next
      case (Inl error)
      show ?thesis
      proof (cases "pollContinues error")
        case True
        with Inl False body have "loop e operation (sleep 5000 h @ [GetVideosOperation operation]) = Some y"
          by simp
        from IH [OF this] two show ?thesis by (rule extends_trans [rotated])
      next
        case no: False
        with Inl False body two show ?thesis by auto
      qed
    qed
  qed
qed


lemma callGenerateVideos_extends:
  "callGenerateVideos e params s = (r, s') \<Longrightarrow> extends (\<lambda>ev. ev = GenerateVideos params \<or> isSleep ev) s s'"
  by (auto simp: callGenerateVideos_def extends_def)

lemma retry_creation_events:
  assumes "retryOperation sleep (callGenerateVideos e params) 5 2000 h = (r, h')"
  shows "\<exists>t. h' = h @ GenerateVideos params # t \<and> list_all (\<lambda>ev. ev = GenerateVideos params \<or> isSleep ev) t"
proof -
  let ?Q = "\<lambda>ev. ev = GenerateVideos params \<or> isSleep ev"
  have step: "extends ?Q (h @ [GenerateVideos params]) h'"
  proof (cases "generateVideos e h params")
    case (Inr v)
    with assms show ?thesis
      by (simp add: retryOperation_def retryLoop.simps [of _ _ _ _ 0] callGenerateVideos_def extends_refl)
  next
    case (Inl a)
    show ?thesis
    proof (cases "isRetryable a")
      case False
      with Inl assms show ?thesis
        by (simp add: retryOperation_def retryLoop.simps [of _ _ _ _ 0] callGenerateVideos_def extends_refl)
    next
      case True
      with Inl assms
      have rec: "retryLoop sleep (callGenerateVideos e params) 5 2000 (Suc 0)
                   (sleep 2000 (h @ [GenerateVideos params])) = (r, h')"
        by (simp add: retryOperation_def retryLoop.simps [of _ _ _ _ 0] callGenerateVideos_def)
      have "extends ?Q (sleep 2000 (h @ [GenerateVideos params])) h'"
        by (rule retryLoop_extends [OF rec])
           (auto simp: callGenerateVideos_def extends_def sleep_def)
      moreover have "extends ?Q (h @ [GenerateVideos params]) (sleep 2000 (h @ [GenerateVideos params]))"
        by (simp add: extends_def sleep_def)
      ultimately show ?thesis by (blast intro: extends_trans)
    qed
  qed
  then show ?thesis by (auto simp: extends_def)
qed

lemma createVideoOperation_single:
  assumes "createVideoOperation e [f] p config h = (r, h1)"
  shows "(\<exists>err. readAsDataURL e h f = Inl err \<and> r = Inl err \<and> h1 = h @ [ReadAsDataURL f]) \<or>
         (\<exists>url t. readAsDataURL e h f = Inr url \<and>
            h1 = h @ ReadAsDataURL f #
                   GenerateVideos (singleImageRequest p (at_index (split_comma url) 1) f config) # t \<and>
            list_all (\<lambda>ev. ev = GenerateVideos (singleImageRequest p (at_index (split_comma url) 1) f config)
                           \<or> isSleep ev) t)"
proof (cases "readAsDataURL e h f")
  case (Inl err)
  with assms show ?thesis by (simp add: createVideoOperation_def blobToBase64_def)
next
  case (Inr url)
  with assms have "retryOperation sleep
      (callGenerateVideos e (singleImageRequest p (at_index (split_comma url) 1) f config))
      5 2000 (h @ [ReadAsDataURL f]) = (r, h1)"
    by (simp add: createVideoOperation_def blobToBase64_def)
  from retry_creation_events [OF this] Inr show ?thesis by auto
qed

lemma encodeReferences_events:
  "encodeReferences e files acc h = (r, h1) \<Longrightarrow>
     (case r of
        Inl err \<Rightarrow> \<exists>j<length files. h1 = h @ map ReadAsDataURL (take (Suc j) files)
      | Inr payload \<Rightarrow>
          h1 = h @ map ReadAsDataURL files \<and>
          (\<exists>new. payload = acc @ new \<and>
                 map (\<lambda>r. mimeType (ref_image r)) new = map file_type files \<and>
                 list_all (\<lambda>r. referenceType r = ASSET) new))"
proof (induction files arbitrary: acc h)
  case Nil
  then show ?case by auto
next
  case (Cons f files)
  show ?case
  proof (cases "readAsDataURL e h f")
    case (Inl err)
    with Cons.prems show ?thesis by (auto simp: blobToBase64_def)
  next
    case (Inr url)
    let ?ref = "\<lparr>ref_image = \<lparr>imageBytes = at_index (split_comma url) 1, mimeType = file_type f\<rparr>,
                 referenceType = ASSET\<rparr>"
    from Inr Cons.prems
    have rec: "encodeReferences e files (acc @ [?ref]) (h @ [ReadAsDataURL f]) = (r, h1)"
      by (simp add: blobToBase64_def)
    from Cons.IH [OF rec] show ?thesis
    proof (cases r)
      case (Inl err)
      with Cons.IH [OF rec] obtain j where "j < length files"
        "h1 = (h @ [ReadAsDataURL f]) @ map ReadAsDataURL (take (Suc j) files)" by auto
      then have "Suc j < length (f # files)" "h1 = h @ map ReadAsDataURL (take (Suc (Suc j)) (f # files))"
        by auto
      with Inl show ?thesis by (simp del: take_Suc_Cons) blast
    next
      case (Inr payload)
      with Cons.IH [OF rec] obtain new where
        "h1 = (h @ [ReadAsDataURL f]) @ map ReadAsDataURL files"
        "payload = (acc @ [?ref]) @ new"
        "map (\<lambda>r. mimeType (ref_image r)) new = map file_type files"
        "list_all (\<lambda>r. referenceType r = ASSET) new" by auto
      then have "h1 = h @ map ReadAsDataURL (f # files)" "payload = acc @ (?ref # new)"
        "map (\<lambda>r. mimeType (ref_image r)) (?ref # new) = map file_type (f # files)"
        "list_all (\<lambda>r. referenceType r = ASSET) (?ref # new)" by auto
      with Inr show ?thesis by (simp del: map_append)
    qed
  qed
qed

lemma encodeReferences_ok:
  "length urls = length files \<Longrightarrow>
   (\<And>j. j < length files \<Longrightarrow> readAsDataURL e (h @ map ReadAsDataURL (take j files)) (files ! j) = Inr (urls ! j)) \<Longrightarrow>
   encodeReferences e files acc h
     = (Inr (acc @ map2 (\<lambda>f url. \<lparr>ref_image = \<lparr>imageBytes = at_index (split_comma url) 1,
                                                   mimeType = file_type f\<rparr>,
                                      referenceType = ASSET\<rparr>) files urls),
        h @ map ReadAsDataURL files)"
proof (induction files arbitrary: urls acc h)
  case Nil
  then show ?case by simp
next
  case (Cons f files)
  then obtain u us where urls: "urls = u # us" by (cases urls) auto
  from Cons.prems(2) [of 0] urls have r0: "readAsDataURL e h f = Inr u" by simp
  have rest: "readAsDataURL e ((h @ [ReadAsDataURL f]) @ map ReadAsDataURL (take j files)) (files ! j)
      = Inr (us ! j)" if "j < length files" for j
    using Cons.prems(2) [of "Suc j"] that urls by simp
  from Cons.prems(1) urls have "length us = length files" by simp
  from Cons.IH [OF this rest] r0 urls show ?case
    by (simp add: blobToBase64_def)
qed

lemma creationCalls_append: "creationCalls (a @ b) = creationCalls a @ creationCalls b"
  by (induction a rule: creationCalls.induct) auto

lemma creationCalls_none: "list_all (\<lambda>ev. \<not> isCreation ev) t \<Longrightarrow> creationCalls t = []"
  by (induction t rule: creationCalls.induct) auto

lemma creationCalls_reads: "creationCalls (map ReadAsDataURL fs) = []"
  by (induction fs) auto

lemma creationCalls_only:
  "list_all (\<lambda>ev. ev = GenerateVideos params \<or> isSleep ev) t \<Longrightarrow> set (creationCalls t) \<subseteq> {params}"
  by (induction t rule: creationCalls.induct) auto

lemma createVideoOperation_multi:
  assumes "createVideoOperation e files p config h = (r, h1)" and "length files \<noteq> 1"
  shows "(\<exists>j<length (take 3 files). h1 = h @ map ReadAsDataURL (take (Suc j) (take 3 files))) \<or>
         (\<exists>payload t.
            h1 = h @ map ReadAsDataURL (take 3 files) @ GenerateVideos (multiImageRequest p payload) # t \<and>
            list_all (\<lambda>ev. ev = GenerateVideos (multiImageRequest p payload) \<or> isSleep ev) t \<and>
            map (\<lambda>r. mimeType (ref_image r)) payload = map file_type (take 3 files) \<and>
            list_all (\<lambda>r. referenceType r = ASSET) payload)"
proof -
  obtain x h0 where enc: "encodeReferences e (take 3 files) [] h = (x, h0)"
    by (cases "encodeReferences e (take 3 files) [] h")
  show ?thesis
  proof (cases x)
    case (Inl err)
    with enc assms have "h1 = h0" by (simp add: createVideoOperation_def)
    with encodeReferences_events [OF enc] Inl show ?thesis by auto
  next
    case (Inr payload)
    with enc assms have "retryOperation sleep (callGenerateVideos e (multiImageRequest p payload))
        5 2000 h0 = (r, h1)"
      by (simp add: createVideoOperation_def)
    from retry_creation_events [OF this] encodeReferences_events [OF enc] Inr
    show ?thesis by auto
  qed
qed

lemma fetchVideo_extends: "fetchVideo e url s = (r, s') \<Longrightarrow> extends (\<lambda>ev. \<not> isCreation ev) s s'"
  by (auto simp: fetchVideo_def extends_def split: sum.splits if_splits)

lemma downloadVideo_extends:
  assumes "downloadVideo e k operation h = (r, h')"
  shows "extends (\<lambda>ev. \<not> isCreation ev) h h'"
proof (cases "op_error operation")
  case (Some payload)
  with assms show ?thesis by (simp add: downloadVideo_def extends_refl)
next
  case None
  show ?thesis
  proof (cases "videoUri operation")
    case no: None
    with None assms show ?thesis by (simp add: downloadVideo_def extends_refl)
  next
    case (Some u)
    show ?thesis
    proof (cases "u = []")
      case True
      with None Some assms show ?thesis by (simp add: downloadVideo_def extends_refl)
    next
      case False
      obtain x h0 where dl: "retryOperation sleep (fetchVideo e (u @ ''&key='' @ k)) 3 1000 h = (x, h0)"
        by (cases "retryOperation sleep (fetchVideo e (u @ ''&key='' @ k)) 3 1000 h")
      have h0: "extends (\<lambda>ev. \<not> isCreation ev) h h0"
      proof (rule retryLoop_extends [OF dl [unfolded retryOperation_def]])
        show "extends (\<lambda>ev. \<not> isCreation ev) s s'"
          if "fetchVideo e (u @ ''&key='' @ k) s = (r, s')" for s r s'
          using that by (rule fetchVideo_extends)
        show "extends (\<lambda>ev. \<not> isCreation ev) s (sleep ms s)" for ms s
          by (simp add: extends_def sleep_def)
      qed
      show ?thesis
      proof (cases x)
        case (Inl err)
        with None Some False dl assms h0 show ?thesis by (simp add: downloadVideo_def)
      next
        case (Inr videoBlob)
        with None Some False dl assms have "h' = h0 @ [CreateObjectURL videoBlob]"
          by (simp add: downloadVideo_def)
        then have "extends (\<lambda>ev. \<not> isCreation ev) h0 h'" by (simp add: extends_def)
        with h0 show ?thesis by (blast intro: extends_trans)
      qed
    qed
  qed
qed

lemma pollLoop_no_creation:
  assumes "pollLoop e operation h = Some (r, h')"
  shows "extends (\<lambda>ev. \<not> isCreation ev) h h'"
proof -
  have "extends (\<lambda>ev. isSleep ev \<or> isPoll ev) h h'"
    using pollLoop_extends [OF assms] by simp
  then show ?thesis
    by (rule extends_weaken) (auto elim: isSleep.elims isPoll.elims)
qed

text \<open>
  A run that returns is rejected before any call, or it is the creation stage followed by
  events that create nothing.
\<close>

lemma video_run_rejected:
  assumes "generateFashionVideo e assets config h = Some (r, h')"
    and "\<not> (\<exists>k. API_KEY e = Some k \<and> k \<noteq> [] \<and> orderedFiles assets \<noteq> [])"
  shows "h' = h"
  using assms by (auto simp: generateFashionVideo_def split: option.splits if_splits)

lemma video_run_started:
  assumes "generateFashionVideo e assets config h = Some (r, h')"
    and k: "API_KEY e = Some k" "k \<noteq> []" "orderedFiles assets \<noteq> []"
    and cr: "createVideoOperation e (orderedFiles assets)
               (buildCommonPrompt e config (int (length (orderedFiles assets)))
                  @ '' Generate a cinematic video.'') config h = (r1, h1)"
  shows "extends (\<lambda>ev. \<not> isCreation ev) h1 h'"
proof -
  let ?p = "buildCommonPrompt e config (int (length (orderedFiles assets))) @ '' Generate a cinematic video.''"
  from assms(1) k obtain r2 where tr: "videoTry e k (orderedFiles assets) ?p config h = Some (r2, h')"
    by (auto simp: generateFashionVideo_def Let_def split: option.splits prod.splits sum.splits)
  show ?thesis
  proof (cases r1)
    case (Inl err)
    with cr tr show ?thesis by (simp add: videoTry_def extends_refl)
  next
    case op1: (Inr operation)
    with cr tr obtain y where poll: "pollLoop e operation h1 = Some y"
      by (auto simp: videoTry_def split: option.splits)
    obtain r3 h3 where y: "y = (r3, h3)" by (cases y)
    have p: "extends (\<lambda>ev. \<not> isCreation ev) h1 h3"
      using pollLoop_no_creation poll y by simp
    show ?thesis
    proof (cases r3)
      case (Inl err)
      with cr op1 tr poll y p show ?thesis by (simp add: videoTry_def)
    next
      case (Inr operation')
      with cr op1 tr poll y have "downloadVideo e k operation' h3 = (r2, h')"
        by (simp add: videoTry_def)
      from downloadVideo_extends [OF this] p show ?thesis by (blast intro: extends_trans)
    qed
  qed
qed

lemma run_creation_calls:
  assumes "generateFashionVideo e assets config h = Some (r, h')"
    and "createVideoOperation e (orderedFiles assets)
           (buildCommonPrompt e config (int (length (orderedFiles assets))) @ '' Generate a cinematic video.'')
           config h = (r1, h @ t)"
  shows "set (creationCalls (drop (length h) h')) \<subseteq> set (creationCalls t)"
proof (cases "\<exists>k. API_KEY e = Some k \<and> k \<noteq> [] \<and> orderedFiles assets \<noteq> []")
  case False
  from video_run_rejected [OF assms(1) this] show ?thesis by simp
next
  case True
  then obtain k where "API_KEY e = Some k" "k \<noteq> []" "orderedFiles assets \<noteq> []" by blast
  from video_run_started [OF assms(1) this assms(2)]
  obtain t2 where "h' = h @ t @ t2" "list_all (\<lambda>ev. \<not> isCreation ev) t2"
    by (auto simp: extends_def)
  then show ?thesis
    by (simp add: creationCalls_append creationCalls_none)
qed

lemma run_begins_with_creation:
  assumes "API_KEY e = Some k" and "k \<noteq> []" and "orderedFiles assets \<noteq> []"
    and "createVideoOperation e (orderedFiles assets)
           (buildCommonPrompt e config (int (length (orderedFiles assets))) @ '' Generate a cinematic video.'')
           config h = (r1, h1)"
  shows "generateFashionVideo e assets config h = None \<or>
         (\<exists>r t. generateFashionVideo e assets config h = Some (r, h1 @ t))"
proof (cases "generateFashionVideo e assets config h")
  case None
  then show ?thesis by simp
next
  case (Some y)
  obtain r h' where y: "y = (r, h')" by (cases y)
  from video_run_started [OF Some [unfolded y] assms]
  show ?thesis using Some y by (auto simp: extends_def)
qed

lemmas run_defs =
  generateFashionVideo_def videoTry_def createVideoOperation_def blobToBase64_def
  retryOperation_def retryLoop.simps callGenerateVideos_def pollLoop.simps downloadVideo_def
  videoUri_def fetchVideo_def videoCatch_def sessionExpired_def
  isRetryable_def pollContinues_def messageOrEmpty_def new_Error_def template_string_def
  orderedFiles_def at_index_def sleep_def

lemmas demo_defs =
  demo_env_def scripted_def pollCount_def no_assets_def pending_operation_def
  finished_operation_def failed_operation_def image_env_def

subsection \<open>C1: several assets\<close>

lemma defined_filter: "defined xs = map the (filter (\<lambda>slot. slot \<noteq> None) xs)"
  by (induction xs rule: defined.induct) auto

text \<open>
  C1. Let more than one slot be populated. In every run of \<open>generateFashionVideo\<close> that
  returns, each \<open>generateVideos\<close> call made is a call of the multi-reference model with
  aspect ratio ``16:9'', whatever \<open>config.aspectRatio\<close> is, and its reference images are of
  the first three populated slots, in the order top, bottom, shoes, accessories, each of
  type \<open>ASSET\<close>. With a key and readable files the call is made: the creation stage reads
  those files, in order, and then issues the request written out below, whose reference
  images are the encodings of exactly those files. With all four slots populated the
  three files are top, bottom and shoes: accessories is dropped.
\<close>

theorem multi_asset_request:
  assumes "1 < length (orderedFiles assets)"
  shows "(\<forall>r h' params.
            generateFashionVideo e assets config h = Some (r, h') \<and>
            params \<in> set (creationCalls (drop (length h) h'))
            \<longrightarrow> vc_aspectRatio (vp_config params) = ''16:9'' \<and>
                vp_model params = ''veo-3.1-generate-preview'' \<and>
                vp_image params = None \<and>
                (\<exists>payload. referenceImages (vp_config params) = Some payload \<and>
                   map (\<lambda>r. mimeType (ref_image r)) payload
                     = map file_type (take 3 (orderedFiles assets)) \<and>
                   list_all (\<lambda>r. referenceType r = ASSET) payload)) \<and>
         (\<forall>k urls.
            API_KEY e = Some k \<and> k \<noteq> [] \<and> length urls = length (take 3 (orderedFiles assets)) \<and>
            (\<forall>j<length urls.
               readAsDataURL e (h @ map ReadAsDataURL (take j (orderedFiles assets))) (orderedFiles assets ! j)
                 = Inr (urls ! j))
            \<longrightarrow> (\<exists>r t. createVideoOperation e (orderedFiles assets)
                          (buildCommonPrompt e config (int (length (orderedFiles assets)))
                             @ '' Generate a cinematic video.'') config h
                        = (r, h @ map ReadAsDataURL (take 3 (orderedFiles assets)) @
                              GenerateVideos
                                \<lparr>vp_model = ''veo-3.1-generate-preview'',
                                 vp_prompt = buildCommonPrompt e config (int (length (orderedFiles assets)))
                                               @ '' Generate a cinematic video.'',
                                 vp_image = None,
                                 vp_config =
                                   \<lparr>numberOfVideos = 1,
                                    referenceImages = Some
                                      (map2 (\<lambda>f url. \<lparr>ref_image = \<lparr>imageBytes = at_index (split_comma url) 1,
                                                                       mimeType = file_type f\<rparr>,
                                                          referenceType = ASSET\<rparr>)
                                         (take 3 (orderedFiles assets)) urls),
                                    resolution = ''720p'',
                                    vc_aspectRatio = ''16:9''\<rparr>\<rparr> # t)) \<and>
                (generateFashionVideo e assets config h = None \<or>
                 (\<exists>r t. generateFashionVideo e assets config h
                        = Some (r, h @ map ReadAsDataURL (take 3 (orderedFiles assets)) @
                              GenerateVideos
                                \<lparr>vp_model = ''veo-3.1-generate-preview'',
                                 vp_prompt = buildCommonPrompt e config (int (length (orderedFiles assets)))
                                               @ '' Generate a cinematic video.'',
                                 vp_image = None,
                                 vp_config =
                                   \<lparr>numberOfVideos = 1,
                                    referenceImages = Some
                                      (map2 (\<lambda>f url. \<lparr>ref_image = \<lparr>imageBytes = at_index (split_comma url) 1,
                                                                       mimeType = file_type f\<rparr>,
                                                          referenceType = ASSET\<rparr>)
                                         (take 3 (orderedFiles assets)) urls),
                                    resolution = ''720p'',
                                    vc_aspectRatio = ''16:9''\<rparr>\<rparr> # t)))) \<and>
         orderedFiles assets
           = map the (filter (\<lambda>slot. slot \<noteq> None)
                        [top assets, bottom assets, shoes assets, accessories assets]) \<and>
         (\<forall>t b s a.
            top assets = Some t \<and> bottom assets = Some b \<and> shoes assets = Some s \<and>
            accessories assets = Some a
            \<longrightarrow> take 3 (orderedFiles assets) = [t, b, s])"
proof -
  let ?files = "orderedFiles assets"
  let ?refs = "take 3 ?files"
  let ?p = "buildCommonPrompt e config (int (length ?files)) @ '' Generate a cinematic video.''"
  let ?mk = "\<lambda>f url. \<lparr>ref_image = \<lparr>imageBytes = at_index (split_comma url) 1, mimeType = file_type f\<rparr>,
                       referenceType = ASSET\<rparr>"
  from assms have many: "length ?files \<noteq> 1" and files: "?files \<noteq> []" by auto
  obtain r1 h1 where cr: "createVideoOperation e ?files ?p config h = (r1, h1)"
    by (cases "createVideoOperation e ?files ?p config h")
  note shape = createVideoOperation_multi [OF cr many]
  have first: "vc_aspectRatio (vp_config params) = ''16:9'' \<and>
      vp_model params = ''veo-3.1-generate-preview'' \<and>
      vp_image params = None \<and>
      (\<exists>payload. referenceImages (vp_config params) = Some payload \<and>
         map (\<lambda>r. mimeType (ref_image r)) payload = map file_type ?refs \<and>
         list_all (\<lambda>r. referenceType r = ASSET) payload)"
    if run: "generateFashionVideo e assets config h = Some (r, h')"
      and p: "params \<in> set (creationCalls (drop (length h) h'))" for r h' params
  proof -
    from shape show ?thesis
    proof
      assume "\<exists>j<length ?refs. h1 = h @ map ReadAsDataURL (take (Suc j) ?refs)"
      then obtain j where "h1 = h @ map ReadAsDataURL (take (Suc j) ?refs)" by blast
      with run_creation_calls [OF run, of r1 "map ReadAsDataURL (take (Suc j) ?refs)"] cr p
      show ?thesis by (simp add: creationCalls_reads)
    next
      assume "\<exists>payload t.
            h1 = h @ map ReadAsDataURL ?refs @ GenerateVideos (multiImageRequest ?p payload) # t \<and>
            list_all (\<lambda>ev. ev = GenerateVideos (multiImageRequest ?p payload) \<or> isSleep ev) t \<and>
            map (\<lambda>r. mimeType (ref_image r)) payload = map file_type ?refs \<and>
            list_all (\<lambda>r. referenceType r = ASSET) payload"
      then obtain payload t where
        h1: "h1 = h @ map ReadAsDataURL ?refs @ GenerateVideos (multiImageRequest ?p payload) # t"
        and t: "list_all (\<lambda>ev. ev = GenerateVideos (multiImageRequest ?p payload) \<or> isSleep ev) t"
        and pl: "map (\<lambda>r. mimeType (ref_image r)) payload = map file_type ?refs"
          "list_all (\<lambda>r. referenceType r = ASSET) payload" by blast
      from run_creation_calls [OF run, of r1
          "map ReadAsDataURL ?refs @ GenerateVideos (multiImageRequest ?p payload) # t"]
        cr h1 p creationCalls_only [OF t]
      have "params = multiImageRequest ?p payload"
        by (auto simp: creationCalls_append creationCalls_reads)
      with pl show ?thesis by (simp add: multiImageRequest_def)
    qed
  qed
  have second: "(\<exists>r t. createVideoOperation e ?files ?p config h
        = (r, h @ map ReadAsDataURL ?refs @ GenerateVideos
              \<lparr>vp_model = ''veo-3.1-generate-preview'', vp_prompt = ?p, vp_image = None,
               vp_config = \<lparr>numberOfVideos = 1, referenceImages = Some (map2 ?mk ?refs urls),
                            resolution = ''720p'', vc_aspectRatio = ''16:9''\<rparr>\<rparr> # t)) \<and>
      (generateFashionVideo e assets config h = None \<or>
       (\<exists>r t. generateFashionVideo e assets config h
          = Some (r, h @ map ReadAsDataURL ?refs @ GenerateVideos
              \<lparr>vp_model = ''veo-3.1-generate-preview'', vp_prompt = ?p, vp_image = None,
               vp_config = \<lparr>numberOfVideos = 1, referenceImages = Some (map2 ?mk ?refs urls),
                            resolution = ''720p'', vc_aspectRatio = ''16:9''\<rparr>\<rparr> # t)))"
    if k: "API_KEY e = Some k" "k \<noteq> []" and len: "length urls = length ?refs"
      and reads: "\<forall>j<length urls.
         readAsDataURL e (h @ map ReadAsDataURL (take j ?files)) (?files ! j) = Inr (urls ! j)"
    for k urls
  proof -
    have "readAsDataURL e (h @ map ReadAsDataURL (take j ?refs)) (?refs ! j) = Inr (urls ! j)"
      if "j < length ?refs" for j
    proof -
      from that have j3: "j < 3" by simp
      then have "take j ?refs = take j ?files" "?refs ! j = ?files ! j"
        by (simp_all add: min_def)
      with reads that len show ?thesis by simp
    qed
    from encodeReferences_ok [OF len this, of "[]"]
    have enc: "encodeReferences e ?refs [] h = (Inr (map2 ?mk ?refs urls), h @ map ReadAsDataURL ?refs)"
      by simp
    with cr many
    have "retryOperation sleep (callGenerateVideos e (multiImageRequest ?p (map2 ?mk ?refs urls)))
        5 2000 (h @ map ReadAsDataURL ?refs) = (r1, h1)"
      by (simp add: createVideoOperation_def)
    from retry_creation_events [OF this]
    obtain t where h1: "h1 = h @ map ReadAsDataURL ?refs @
        GenerateVideos (multiImageRequest ?p (map2 ?mk ?refs urls)) # t" by auto
    from run_begins_with_creation [OF k files cr] h1 cr
    show ?thesis by (auto simp: multiImageRequest_def)
  qed
  have third: "?files = map the (filter (\<lambda>slot. slot \<noteq> None)
      [top assets, bottom assets, shoes assets, accessories assets])"
    unfolding orderedFiles_def by (rule defined_filter)
  have fourth: "take 3 ?files = [t, b, s]"
    if "top assets = Some t \<and> bottom assets = Some b \<and> shoes assets = Some s \<and>
        accessories assets = Some a" for t b s a
    using that by (simp add: orderedFiles_def)
  from first second third fourth show ?thesis by blast
qed

text \<open>
  The theorem at four assets and the configured ratio ``9:16'': one creation call, with
  ratio ``16:9'' and the shirt, the jeans and the boots as references.
\<close>

theorem multi_asset_request_witness:
  "map_option (\<lambda>(r, h'). (r, map (\<lambda>p. (vc_aspectRatio (vp_config p),
                                        map_option (map (\<lambda>r. (imageBytes (ref_image r), mimeType (ref_image r))))
                                          (referenceImages (vp_config p))))
                              (creationCalls h')))
     (generateFashionVideo (demo_env [Inr (finished_operation ''https://v/1?alt=media'')])
        all_assets demo_config [])
     = Some (Inr ''blob:video/mp4'',
             [(''16:9'', Some [(Some ''shirt'', ''image/png''), (Some ''jeans'', ''image/jpeg''),
                               (Some ''boots'', ''image/webp'')])])"
  using multi_asset_request [of all_assets
      "demo_env [Inr (finished_operation ''https://v/1?alt=media'')]" demo_config "[]"]
  by (simp add: run_defs demo_defs multiImageRequest_def all_assets_def
      shirt_def jeans_def boots_def scarf_def)

subsection \<open>C2: retryOperation\<close>

text \<open>
  C2, as amended. For an attempt count \<open>retries \<ge> 1\<close> and a base delay \<open>b\<close>:
  \<^item> if the invocations 0 to \<open>j - 1\<close> fail transiently and invocation \<open>j < retries\<close> does not,
    the wrapper returns what invocation \<open>j\<close> returns, in the state that invocation leaves:
    invocation \<open>k + 1\<close> starts after a wait of \<open>b * 2 ^ k\<close> ms (\<open>attemptState\<close>), and nothing
    is invoked after invocation \<open>j\<close>;
  \<^item> if all \<open>retries\<close> invocations fail transiently, the wrapper throws what the last of
    them throws, in the state that invocation leaves;
  \<^item> with \<open>retries \<ge> 3\<close>, an operation that fails transiently twice and then succeeds
    yields the success value after exactly three invocations, the waits being \<open>b\<close> and
    \<open>2 b\<close>;
  \<^item> an operation whose first failure is not transient has that failure thrown after
    exactly one invocation.
  The third item fails for \<open>retries < 3\<close> (see the counterexample), which is why the claim
  is amended.
\<close>

theorem retryOperation_backoff:
  "1 \<le> retries \<longrightarrow>
     (\<forall>j. int j < retries \<and> (\<forall>k<j. failsTransiently fn (attemptState wait fn b s k)) \<and>
          \<not> failsTransiently fn (attemptState wait fn b s j)
          \<longrightarrow> retryOperation wait fn retries b s = fn (attemptState wait fn b s j)) \<and>
     ((\<forall>k. int k < retries \<longrightarrow> failsTransiently fn (attemptState wait fn b s k))
          \<longrightarrow> retryOperation wait fn retries b s = fn (attemptState wait fn b s (nat (retries - 1)))) \<and>
     (\<forall>e0 s1 e1 s2 v s3.
          3 \<le> retries \<and> fn s = (Inl e0, s1) \<and> isRetryable e0 \<and>
          fn (wait b s1) = (Inl e1, s2) \<and> isRetryable e1 \<and>
          fn (wait (b * 2) s2) = (Inr v, s3)
          \<longrightarrow> retryOperation wait fn retries b s = (Inr v, s3)) \<and>
     (\<forall>e s1. fn s = (Inl e, s1) \<and> \<not> isRetryable e
          \<longrightarrow> retryOperation wait fn retries b s = (Inl e, s1))"
proof (intro impI conjI allI)
  fix j
  assume n: "1 \<le> retries"
    and h: "int j < retries \<and> (\<forall>k<j. failsTransiently fn (attemptState wait fn b s k)) \<and>
          \<not> failsTransiently fn (attemptState wait fn b s j)"
  show "retryOperation wait fn retries b s = fn (attemptState wait fn b s j)"
    using retryLoop_stops [of 0 j retries fn wait b s] h by (simp add: retryOperation_def)
next
  assume n: "1 \<le> retries"
    and h: "\<forall>k. int k < retries \<longrightarrow> failsTransiently fn (attemptState wait fn b s k)"
  show "retryOperation wait fn retries b s = fn (attemptState wait fn b s (nat (retries - 1)))"
    using retryLoop_stops [of 0 "nat (retries - 1)" retries fn wait b s] n h
    by (simp add: retryOperation_def)
next
  fix e0 s1 e1 s2 v s3
  assume n: "1 \<le> retries"
    and h: "3 \<le> retries \<and> fn s = (Inl e0, s1) \<and> isRetryable e0 \<and>
          fn (wait b s1) = (Inl e1, s2) \<and> isRetryable e1 \<and>
          fn (wait (b * 2) s2) = (Inr v, s3)"
  have st: "attemptState wait fn b s 1 = wait b s1" "attemptState wait fn b s 2 = wait (b * 2) s2"
    using h by (simp_all add: numeral_2_eq_2)
  have "\<forall>k. 0 \<le> k \<and> k < 2 \<longrightarrow> failsTransiently fn (attemptState wait fn b s k)"
  proof (intro allI impI)
    fix k :: nat assume "0 \<le> k \<and> k < 2"
    then have "k = 0 \<or> k = 1" by auto
    then show "failsTransiently fn (attemptState wait fn b s k)"
      using h st by (auto simp: failsTransiently_def)
  qed
  moreover have "\<not> failsTransiently fn (attemptState wait fn b s 2)"
    using h st by (simp add: failsTransiently_def)
  ultimately show "retryOperation wait fn retries b s = (Inr v, s3)"
    using retryLoop_stops [of 0 2 retries fn wait b s] h st by (simp add: retryOperation_def)
next
  fix e s1
  assume h: "fn s = (Inl e, s1) \<and> \<not> isRetryable e" and n: "1 \<le> retries"
  then have "\<not> failsTransiently fn (attemptState wait fn b s 0)"
    by (simp add: failsTransiently_def)
  then show "retryOperation wait fn retries b s = (Inl e, s1)"
    using retryLoop_stops [of 0 0 retries fn wait b s] h n by (simp add: retryOperation_def)
qed

text \<open>
  The theorem at the counting test double: two 503 failures and a success with five
  attempts (three invocations, waits of 2000 and 4000 ms); a 400 failure (one invocation,
  no wait); three 429 failures with three attempts (three invocations, the last error).
\<close>

theorem retryOperation_backoff_witness:
  "retryOperation probe_sleep (probe_fn fails_twice) 5 2000 \<lparr>calls = 0, delays = []\<rparr>
     = (Inr 7, \<lparr>calls = 3, delays = [2000, 4000]\<rparr>) \<and>
   retryOperation probe_sleep (probe_fn bad_request) 5 2000 \<lparr>calls = 0, delays = []\<rparr>
     = (Inl (new_Error ''400 Bad Request''), \<lparr>calls = 1, delays = []\<rparr>) \<and>
   retryOperation probe_sleep (probe_fn rate_limited) 3 1000 \<lparr>calls = 0, delays = []\<rparr>
     = (Inl (new_Error ''429 Too Many Requests''), \<lparr>calls = 3, delays = [1000, 2000]\<rparr>)"
proof (intro conjI)
  show "retryOperation probe_sleep (probe_fn fails_twice) 5 2000 \<lparr>calls = 0, delays = []\<rparr>
      = (Inr 7, \<lparr>calls = 3, delays = [2000, 4000]\<rparr>)"
    using retryOperation_backoff [of 5 "probe_fn fails_twice" probe_sleep 2000 "\<lparr>calls = 0, delays = []\<rparr>"]
    by (simp add: probe_fn_def probe_sleep_def fails_twice_def isRetryable_def messageOrEmpty_def
        new_Error_def)
next
  show "retryOperation probe_sleep (probe_fn bad_request) 5 2000 \<lparr>calls = 0, delays = []\<rparr>
      = (Inl (new_Error ''400 Bad Request''), \<lparr>calls = 1, delays = []\<rparr>)"
    using retryOperation_backoff [of 5 "probe_fn bad_request" probe_sleep 2000 "\<lparr>calls = 0, delays = []\<rparr>"]
    by (simp add: probe_fn_def probe_sleep_def bad_request_def isRetryable_def messageOrEmpty_def
        new_Error_def)
next
  have "\<forall>p. failsTransiently (probe_fn rate_limited) p"
    by (simp add: failsTransiently_def probe_fn_def rate_limited_def isRetryable_def
        messageOrEmpty_def new_Error_def)
  then show "retryOperation probe_sleep (probe_fn rate_limited) 3 1000 \<lparr>calls = 0, delays = []\<rparr>
      = (Inl (new_Error ''429 Too Many Requests''), \<lparr>calls = 3, delays = [1000, 2000]\<rparr>)"
    using retryOperation_backoff [of 3 "probe_fn rate_limited" probe_sleep 1000 "\<lparr>calls = 0, delays = []\<rparr>"]
    by (simp add: probe_fn_def probe_sleep_def rate_limited_def numeral_2_eq_2)
qed

text \<open>
  The claim as stated fails with two attempts: the operation fails twice with a 503 and
  would succeed the third time, but the second failure is the last attempt, so the wrapper
  throws it after two invocations and one wait, and the success value 7 is never returned.
\<close>

theorem retryOperation_two_attempts_counterexample:
  "retryOperation probe_sleep (probe_fn fails_twice) 2 2000 \<lparr>calls = 0, delays = []\<rparr>
     = (Inl (new_Error ''503 Service Unavailable''), \<lparr>calls = 2, delays = [2000]\<rparr>) \<and>
   fails_twice 0 = Inl (new_Error ''503 Service Unavailable'') \<and>
   fails_twice 1 = Inl (new_Error ''503 Service Unavailable'') \<and>
   fails_twice 2 = Inr 7 \<and>
   isRetryable (new_Error ''503 Service Unavailable'')"
  by (simp add: retryOperation_def retryLoop.simps probe_fn_def probe_sleep_def fails_twice_def
      isRetryable_def messageOrEmpty_def new_Error_def)

subsection \<open>C3: transient failures while polling\<close>

text \<open>
  C3. The polling loop has its own test for a tolerated failure, and the test has neither
  the ``429'' marker nor the status codes of \<open>isRetryable\<close>. A refresh that fails with a
  rate-limit error, or with status 503 and a message without a marker, ends the loop, and
  with it \<open>generateFashionVideo\<close>, with that error although a finished operation would
  have followed; both errors are retryable for \<open>retryOperation\<close>. A failure whose message
  contains ``503'' is survived. (What the loop does survive is \<open>pollLoop_reaches\<close> below:
  every failure that passes the loop's own test.)
\<close>

theorem poll_rate_limit_aborts:
  "map_option fst (generateFashionVideo
      (demo_env [Inl (new_Error ''429 Too Many Requests''), Inr (finished_operation ''https://v/1?alt=media'')])
      (no_assets\<lparr>top := Some shirt\<rparr>) demo_config [])
     = Some (Inl (new_Error ''429 Too Many Requests'')) \<and>
   map_option fst (pollLoop
      (demo_env [Inl (new_Error ''429 Too Many Requests''), Inr (finished_operation ''https://v/1?alt=media'')])
      pending_operation [])
     = Some (Inl (new_Error ''429 Too Many Requests'')) \<and>
   isRetryable (new_Error ''429 Too Many Requests'') \<and>
   map_option fst (pollLoop
      (demo_env [Inl \<lparr>err_name = Some ''ApiError'', message = Some ''Service Unavailable'', status = Some 503\<rparr>,
                 Inr (finished_operation ''https://v/1?alt=media'')])
      pending_operation [])
     = Some (Inl \<lparr>err_name = Some ''ApiError'', message = Some ''Service Unavailable'', status = Some 503\<rparr>) \<and>
   isRetryable \<lparr>err_name = Some ''ApiError'', message = Some ''Service Unavailable'', status = Some 503\<rparr> \<and>
   map_option fst (pollLoop
      (demo_env [Inl (new_Error ''503 Service Unavailable''), Inr (finished_operation ''https://v/1?alt=media'')])
      pending_operation [])
     = Some (Inr (finished_operation ''https://v/1?alt=media''))"
  by (simp add: run_defs demo_defs)

subsection \<open>C4: an operation that ends with an error payload\<close>

lemma pollCount_round: "pollCount (sleep 5000 h) = pollCount h"
  "pollCount (sleep 5000 h @ [GetVideosOperation operation]) = Suc (pollCount h)"
  by (simp_all add: pollCount_def sleep_def)

lemma answersPolls_head:
  "answersPolls e h (r # rs) \<Longrightarrow> getVideosOperation e (sleep 5000 h) operation = r"
  unfolding answersPolls_def using pollCount_round(1) [of h]
  by (metis add.right_neutral length_greater_0_conv list.discI nth_Cons_0)

lemma answersPolls_tail:
  assumes "answersPolls e h (r # rs)"
  shows "answersPolls e (sleep 5000 h @ [GetVideosOperation operation]) rs"
  unfolding answersPolls_def
proof (intro allI impI)
  fix k h' operation'
  assume k: "k < length rs"
    and c: "pollCount h' = pollCount (sleep 5000 h @ [GetVideosOperation operation]) + k"
  then have "Suc k < length (r # rs)" "pollCount h' = pollCount h + Suc k"
    by (simp_all add: pollCount_round)
  with assms have "getVideosOperation e h' operation' = (r # rs) ! Suc k"
    unfolding answersPolls_def by blast
  then show "getVideosOperation e h' operation' = rs ! k" by simp
qed

text \<open>
  Through tolerated failures and operations that are not done, the loop reaches the first
  done operation of the sequence and returns it.
\<close>

lemma pollLoop_reaches:
  "answersPolls e h (rs @ [Inr final]) \<Longrightarrow> list_all keepsPolling rs \<Longrightarrow>
   \<not> op_done operation \<Longrightarrow> op_done final \<Longrightarrow>
   \<exists>h'. pollLoop e operation h = Some (Inr final, h')"
proof (induction rs arbitrary: operation h)
  case Nil
  then have "getVideosOperation e (sleep 5000 h) operation = Inr final"
    using answersPolls_head [of e h "Inr final" "[]"] by simp
  with Nil(3,4) show ?case
    by (subst pollLoop.simps) (simp add: pollLoop.simps [of e final])
next
  case (Cons r rs)
  let ?h1 = "sleep 5000 h @ [GetVideosOperation operation]"
  from Cons.prems(1) have r: "getVideosOperation e (sleep 5000 h) operation = r"
    using answersPolls_head [of e h r "rs @ [Inr final]"] by simp
  from Cons.prems(1) have rest: "answersPolls e ?h1 (rs @ [Inr final])"
    using answersPolls_tail [of e h r "rs @ [Inr final]"] by simp
  from Cons.prems(2) have keep: "keepsPolling r" and keeps: "list_all keepsPolling rs" by simp_all
  show ?case
  proof (cases r)
    case (Inl error)
    with keep have "pollContinues error" by (simp add: keepsPolling_def)
    with Inl r Cons.prems(3) have "pollLoop e operation h = pollLoop e operation ?h1"
      by (subst pollLoop.simps) simp
    with Cons.IH [OF rest keeps Cons.prems(3) Cons.prems(4)] show ?thesis by simp
  next
    case (Inr operation')
    with keep have nd: "\<not> op_done operation'" by (simp add: keepsPolling_def)
    from Inr r Cons.prems(3) have "pollLoop e operation h = pollLoop e operation' ?h1"
      by (subst pollLoop.simps) simp
    with Cons.IH [OF rest keeps nd Cons.prems(4)] show ?thesis by simp
  qed
qed

lemma failure_prefix_free:
  "sublist ''Requested entity was not found'' (''Video generation failed: '' @ m)
     \<longleftrightarrow> sublist ''Requested entity was not found'' m"
  "sublist ''404'' (''Video generation failed: '' @ m) \<longleftrightarrow> sublist ''404'' m"
  by (simp_all add: sublist_Cons_right)

text \<open>
  C4, as amended. Let the creation call return an operation that is not done, and let the
  refresh calls be answered by a sequence that ends in a done operation with an error
  payload of message \<open>m\<close>, every earlier response being a failure the loop tolerates or an
  operation that is not done. Then \<open>generateFashionVideo\<close> returns, and it throws: an
  error whose message is ``Video generation failed: '' followed by \<open>m\<close>; or, where \<open>m\<close>
  contains ``Requested entity was not found'' or ``404'', the session-expired error that the
  \<open>catch\<close> block puts in its place.
\<close>

theorem failed_operation_error:
  assumes "API_KEY e = Some k" and "k \<noteq> []" and "orderedFiles assets \<noteq> []"
    and "createVideoOperation e (orderedFiles assets)
           (buildCommonPrompt e config (int (length (orderedFiles assets))) @ '' Generate a cinematic video.'')
           config h = (Inr operation, h1)"
    and "\<not> op_done operation"
    and "answersPolls e h1 (rs @ [Inr final])"
    and "list_all keepsPolling rs"
    and "op_done final" and "op_error final = Some payload" and "oe_message payload = Some m"
  shows "\<exists>h'. generateFashionVideo e assets config h
           = Some (Inl (if str_includes m ''Requested entity was not found'' \<or> str_includes m ''404''
                        then new_Error ''API Key session expired or invalid. Please re-select your key.''
                        else new_Error (''Video generation failed: '' @ m)),
                   h')"
proof -
  from pollLoop_reaches [OF assms(6,7,5,8)]
  obtain h2 where poll: "pollLoop e operation h1 = Some (Inr final, h2)" by blast
  have dl: "downloadVideo e k final h2 = (Inl (new_Error (''Video generation failed: '' @ m)), h2)"
    using assms(9,10) by (simp add: downloadVideo_def template_string_def)
  have "videoTry e k (orderedFiles assets)
      (buildCommonPrompt e config (int (length (orderedFiles assets))) @ '' Generate a cinematic video.'')
      config h = Some (Inl (new_Error (''Video generation failed: '' @ m)), h2)"
    using assms(4) poll dl by (simp add: videoTry_def)
  then have "generateFashionVideo e assets config h
      = Some (Inl (videoCatch (new_Error (''Video generation failed: '' @ m))), h2)"
    using assms(1-3) by (simp add: generateFashionVideo_def)
  moreover have "videoCatch (new_Error (''Video generation failed: '' @ m))
      = (if str_includes m ''Requested entity was not found'' \<or> str_includes m ''404''
         then new_Error ''API Key session expired or invalid. Please re-select your key.''
         else new_Error (''Video generation failed: '' @ m))"
    unfolding videoCatch_def sessionExpired_def str_includes_sublist
    by (simp only: new_Error_def js_error.simps option.case failure_prefix_free)
  ultimately show ?thesis by simp
qed

lemma demo_env_answers: "pollCount h = 0 \<Longrightarrow> answersPolls (demo_env polls) h polls"
  by (simp add: answersPolls_def demo_env_def scripted_def)

text \<open>
  The theorem at two sequences: a tolerated 503 failure, a pending operation and a failure
  with the message ``quota exceeded''; and a failure with the message ``404 model not
  found'', which is thrown as the session-expired error.
\<close>

theorem failed_operation_error_witness:
  "map_option fst (generateFashionVideo
      (demo_env [Inl (new_Error ''503 Service Unavailable''), Inr pending_operation,
                 Inr (failed_operation ''quota exceeded'')])
      (no_assets\<lparr>top := Some shirt\<rparr>) demo_config [])
     = Some (Inl (new_Error ''Video generation failed: quota exceeded'')) \<and>
   map_option fst (generateFashionVideo
      (demo_env [Inr (failed_operation ''404 model not found'')])
      (no_assets\<lparr>top := Some shirt\<rparr>) demo_config [])
     = Some (Inl (new_Error ''API Key session expired or invalid. Please re-select your key.''))"
proof
  let ?a = "no_assets\<lparr>top := Some shirt\<rparr>"
  let ?p = "\<lambda>e. buildCommonPrompt e demo_config (int (length (orderedFiles ?a)))
                  @ '' Generate a cinematic video.''"
  have files: "orderedFiles ?a \<noteq> []"
    by (simp add: orderedFiles_def no_assets_def)
  have created: "createVideoOperation (demo_env polls) (orderedFiles ?a) (?p (demo_env polls)) demo_config []
      = (Inr pending_operation,
         snd (createVideoOperation (demo_env polls) (orderedFiles ?a) (?p (demo_env polls)) demo_config []))"
    and quiet: "pollCount (snd (createVideoOperation (demo_env polls) (orderedFiles ?a) (?p (demo_env polls)) demo_config [])) = 0"
    for polls
    by (simp_all add: run_defs demo_defs)
  have key: "API_KEY (demo_env polls) = Some ''k''" "''k'' \<noteq> []" for polls
    by (simp_all add: demo_env_def)
  have pending: "\<not> op_done pending_operation"
    by (simp add: pending_operation_def)
  have failed: "op_done (failed_operation m)"
    "op_error (failed_operation m) = Some \<lparr>oe_message = Some m\<rparr>"
    "oe_message \<lparr>oe_message = Some m\<rparr> = Some m" for m
    by (simp_all add: failed_operation_def)
  {
    let ?polls = "[Inl (new_Error ''503 Service Unavailable''), Inr pending_operation,
                   Inr (failed_operation ''quota exceeded'')]"
    have ans: "answersPolls (demo_env ?polls)
        (snd (createVideoOperation (demo_env ?polls) (orderedFiles ?a) (?p (demo_env ?polls)) demo_config []))
        ([Inl (new_Error ''503 Service Unavailable''), Inr pending_operation]
           @ [Inr (failed_operation ''quota exceeded'')])"
      using demo_env_answers [OF quiet] by simp
    have keeps: "list_all keepsPolling [Inl (new_Error ''503 Service Unavailable''), Inr pending_operation]"
      by (simp add: keepsPolling_def pollContinues_def messageOrEmpty_def new_Error_def
          pending_operation_def)
    have "\<exists>h'. generateFashionVideo (demo_env ?polls) ?a demo_config []
        = Some (Inl (if str_includes ''quota exceeded'' ''Requested entity was not found'' \<or>
                        str_includes ''quota exceeded'' ''404''
                     then new_Error ''API Key session expired or invalid. Please re-select your key.''
                     else new_Error (''Video generation failed: '' @ ''quota exceeded'')), h')"
      by (rule failed_operation_error [OF key files created pending ans keeps failed])
    then show "map_option fst (generateFashionVideo (demo_env ?polls) ?a demo_config [])
        = Some (Inl (new_Error ''Video generation failed: quota exceeded''))"
      by auto
  }
  {
    let ?polls = "[Inr (failed_operation ''404 model not found'')]"
    have ans: "answersPolls (demo_env ?polls)
        (snd (createVideoOperation (demo_env ?polls) (orderedFiles ?a) (?p (demo_env ?polls)) demo_config []))
        ([] @ [Inr (failed_operation ''404 model not found'')])"
      using demo_env_answers [OF quiet] by simp
    have keeps: "list_all keepsPolling []"
      by simp
    have "\<exists>h'. generateFashionVideo (demo_env ?polls) ?a demo_config []
        = Some (Inl (if str_includes ''404 model not found'' ''Requested entity was not found'' \<or>
                        str_includes ''404 model not found'' ''404''
                     then new_Error ''API Key session expired or invalid. Please re-select your key.''
                     else new_Error (''Video generation failed: '' @ ''404 model not found'')), h')"
      by (rule failed_operation_error [OF key files created pending ans keeps failed])
    then show "map_option fst (generateFashionVideo (demo_env ?polls) ?a demo_config [])
        = Some (Inl (new_Error ''API Key session expired or invalid. Please re-select your key.''))"
      by auto
  }
qed

text \<open>
  The claim as stated fails: the message thrown is not the payload's message ``quota
  exceeded'' but that message behind the prefix.
\<close>

theorem failed_operation_message_counterexample:
  "map_option fst (generateFashionVideo
      (demo_env [Inr pending_operation, Inr (failed_operation ''quota exceeded'')])
      (no_assets\<lparr>top := Some shirt\<rparr>) demo_config [])
     = Some (Inl (new_Error ''Video generation failed: quota exceeded'')) \<and>
   message (new_Error ''Video generation failed: quota exceeded'') \<noteq> Some ''quota exceeded''"
  by (simp add: run_defs demo_defs)

subsection \<open>C5: credential errors\<close>

text \<open>
  C5. The image path does not replace a credential error: with one asset and a service
  that answers ``Requested entity was not found.'', \<open>generateFashionImage\<close> throws that very
  error, while \<open>generateFashionVideo\<close>, given the same answer, throws the session-expired
  error.
\<close>

theorem image_path_keeps_credential_error:
  "fst (generateFashionImage (rejecting_env (new_Error ''Requested entity was not found.''))
          (no_assets\<lparr>top := Some shirt\<rparr>) demo_config [])
     = Inl (new_Error ''Requested entity was not found.'') \<and>
   map_option fst (generateFashionVideo (rejecting_env (new_Error ''Requested entity was not found.''))
          (no_assets\<lparr>top := Some shirt\<rparr>) demo_config [])
     = Some (Inl (new_Error ''API Key session expired or invalid. Please re-select your key.''))"
  by (simp add: generateFashionImage_def imageTry_def imageCatch_def callGenerateContent_def
      rejecting_env_def run_defs demo_defs)

subsection \<open>C6: no assets\<close>

text \<open>
  C6, as amended. With a configured (non-empty) API key and no slot populated, both entry
  points fail with ``Please upload at least one image.'' for every configuration, and the
  history is returned unchanged: no call has left the service. (The key is tested first:
  without one, the error is ``API Key not found.'', see the counterexample.)
\<close>

theorem empty_assets_rejected:
  assumes "API_KEY e = Some k" and "k \<noteq> []"
    and "top assets = None" and "bottom assets = None"
    and "shoes assets = None" and "accessories assets = None"
  shows "generateFashionVideo e assets config h
           = Some (Inl (new_Error ''Please upload at least one image.''), h) \<and>
         generateFashionImage e assets config h
           = (Inl (new_Error ''Please upload at least one image.''), h)"
  using assms by (simp add: generateFashionVideo_def generateFashionImage_def orderedFiles_def)

theorem empty_assets_rejected_witness:
  "generateFashionVideo (demo_env []) no_assets demo_config []
     = Some (Inl (new_Error ''Please upload at least one image.''), []) \<and>
   generateFashionImage (demo_env []) no_assets demo_config []
     = (Inl (new_Error ''Please upload at least one image.''), [])"
  using empty_assets_rejected [of "demo_env []" "''k''" no_assets demo_config "[]"]
  by (simp add: demo_env_def no_assets_def)

text \<open>
  Without a key, the same call fails with the other error: the claim as stated (the
  missing-assets error for every call with no assets) is false there.
\<close>

theorem empty_assets_without_key_counterexample:
  "generateFashionVideo ((demo_env [])\<lparr>API_KEY := None\<rparr>) no_assets demo_config []
     = Some (Inl (new_Error ''API Key not found.''), []) \<and>
   generateFashionImage ((demo_env [])\<lparr>API_KEY := None\<rparr>) no_assets demo_config []
     = (Inl (new_Error ''API Key not found.''), []) \<and>
   new_Error ''API Key not found.'' \<noteq> new_Error ''Please upload at least one image.''"
  by (simp add: generateFashionVideo_def generateFashionImage_def demo_env_def new_Error_def)

subsection \<open>C7: the first inline image\<close>

text \<open>The nested loops return at the first part with inline data, in the order of \<open>responseParts\<close>.\<close>

lemma scanParts_find:
  "scanParts e ps h =
     (case find (\<lambda>p. part_inlineData p \<noteq> None) ps of
        None \<Rightarrow> None
      | Some p \<Rightarrow> Some (imageFromInline e (the (part_inlineData p)) h))"
  by (induction ps) (auto split: option.splits)

lemma find_append_cases:
  "find P (xs @ ys) = (case find P xs of None \<Rightarrow> find P ys | Some x \<Rightarrow> Some x)"
  by (induction xs) auto

lemma scanCandidates_find:
  "scanCandidates e cs h =
     (case find (\<lambda>p. part_inlineData p \<noteq> None) (concat (map candidateParts cs)) of
        None \<Rightarrow> None
      | Some p \<Rightarrow> Some (imageFromInline e (the (part_inlineData p)) h))"
  by (induction cs)
     (auto simp: candidateParts_def scanParts_find find_append_cases split: option.splits)

lemma extractImage_find:
  "extractImage e response h =
     (case find (\<lambda>p. part_inlineData p \<noteq> None) (responseParts response) of
        None \<Rightarrow> (Inl (new_Error ''No image data found in response.''), h)
      | Some p \<Rightarrow> imageFromInline e (the (part_inlineData p)) h)"
  by (simp add: extractImage_def responseParts_def scanCandidates_find split: option.splits)

lemma find_first:
  assumes "xs = before @ p # after" and "\<forall>q\<in>set before. \<not> P q" and "P p"
  shows "find P xs = Some p"
  using assms by (induction before arbitrary: xs) auto

lemma imageFromInline_not_missing:
  "fst (imageFromInline e inl h) \<noteq> Inl (new_Error ''No image data found in response.'')"
  by (simp add: imageFromInline_def InvalidCharacterError_def new_Error_def Let_def
      split: sum.splits)

text \<open>
  C7, as amended. Let the assets be encoded and let the generation call resolve with
  \<open>response\<close>. Then \<open>generateFashionImage\<close> throws ``No image data found in response.'' if and
  only if no part of any candidate has inline data. Where \<open>p\<close> is the first part with
  inline data, in the order candidates, then parts, the outcome is decided by \<open>p\<close> alone:
  if its payload decodes, the result is the object URL of a blob made of exactly that
  payload's bytes and media type (``image/png'' where the part names none); if it does
  not, the \<open>InvalidCharacterError\<close> of \<open>atob\<close> is thrown, and no later part is looked at.
\<close>

theorem first_inline_image:
  assumes "API_KEY e = Some k" and "k \<noteq> []" and "orderedFiles assets \<noteq> []"
    and "encodeParts e (orderedFiles assets) [] h = (Inr ps, h1)"
    and "retryOperation sleep
           (callGenerateContent e
              (imageRequest
                 (ps @ [\<lparr>part_inlineData = None,
                         part_text = Some (buildCommonPrompt e config (int (length (orderedFiles assets)))
                                           @ '' Generate a high-quality fashion photograph.'')\<rparr>])
                 config))
           5 2000 h1 = (Inr response, h2)"
  shows "(fst (generateFashionImage e assets config h)
            = Inl (new_Error ''No image data found in response.'')
          \<longleftrightarrow> (\<forall>p\<in>set (responseParts response). part_inlineData p = None)) \<and>
         (\<forall>before p after inl.
            responseParts response = before @ p # after \<and>
            (\<forall>q\<in>set before. part_inlineData q = None) \<and>
            part_inlineData p = Some inl
            \<longrightarrow> generateFashionImage e assets config h
                  = (case atob e (template_string (inl_data inl)) of
                       Inl msg \<Rightarrow> (Inl (InvalidCharacterError msg), h2)
                     | Inr binary \<Rightarrow>
                         (Inr (createObjectURL e h2
                                 \<lparr>blob_bytes = map (\<lambda>c. of_char c mod 256) binary,
                                  blob_type = (case inl_mimeType inl of
                                                 None \<Rightarrow> ''image/png''
                                               | Some t \<Rightarrow> if t = [] then ''image/png'' else t)\<rparr>),
                          h2 @ [CreateObjectURL
                                 \<lparr>blob_bytes = map (\<lambda>c. of_char c mod 256) binary,
                                  blob_type = (case inl_mimeType inl of
                                                 None \<Rightarrow> ''image/png''
                                               | Some t \<Rightarrow> if t = [] then ''image/png'' else t)\<rparr>])))"
proof -
  have run: "generateFashionImage e assets config h = extractImage e response h2"
    using assms
    by (simp add: generateFashionImage_def imageTry_def imageCatch_def split: sum.splits prod.splits)
  have missing: "fst (extractImage e response h2) = Inl (new_Error ''No image data found in response.'')
      \<longleftrightarrow> (\<forall>p\<in>set (responseParts response). part_inlineData p = None)"
  proof (cases "find (\<lambda>p. part_inlineData p \<noteq> None) (responseParts response)")
    case None
    then have "\<forall>p\<in>set (responseParts response). part_inlineData p = None"
      by (auto simp: find_None_iff)
    moreover have "extractImage e response h2
        = (Inl (new_Error ''No image data found in response.''), h2)"
      unfolding extractImage_find None by simp
    ultimately show ?thesis by simp
  next
    case (Some p)
    then have "p \<in> set (responseParts response)" "part_inlineData p \<noteq> None"
      by (auto simp: find_Some_iff)
    moreover have "extractImage e response h2 = imageFromInline e (the (part_inlineData p)) h2"
      unfolding extractImage_find Some by simp
    ultimately show ?thesis
      using imageFromInline_not_missing [of e "the (part_inlineData p)" h2] by auto
  qed
  have found: "extractImage e response h2
      = (case atob e (template_string (inl_data inl)) of
           Inl msg \<Rightarrow> (Inl (InvalidCharacterError msg), h2)
         | Inr binary \<Rightarrow>
             (Inr (createObjectURL e h2
                     \<lparr>blob_bytes = map (\<lambda>c. of_char c mod 256) binary,
                      blob_type = (case inl_mimeType inl of
                                     None \<Rightarrow> ''image/png''
                                   | Some t \<Rightarrow> if t = [] then ''image/png'' else t)\<rparr>),
              h2 @ [CreateObjectURL
                     \<lparr>blob_bytes = map (\<lambda>c. of_char c mod 256) binary,
                      blob_type = (case inl_mimeType inl of
                                     None \<Rightarrow> ''image/png''
                                   | Some t \<Rightarrow> if t = [] then ''image/png'' else t)\<rparr>]))"
    if "responseParts response = before @ p # after"
      and "\<forall>q\<in>set before. part_inlineData q = None"
      and "part_inlineData p = Some inl"
    for before p after inl
  proof -
    have "find (\<lambda>p. part_inlineData p \<noteq> None) (responseParts response) = Some p"
      using that by (intro find_first [of _ before p after]) auto
    then have "extractImage e response h2 = imageFromInline e (the (part_inlineData p)) h2"
      unfolding extractImage_find by simp
    then show ?thesis
      using that by (simp add: imageFromInline_def Let_def split: sum.splits)
  qed
  show ?thesis
    unfolding run using missing found by blast
qed

text \<open>
  The theorem at \<open>image_response\<close>: the handle is built from the JPEG payload, the first of
  the two inline images, behind a candidate without content and two text parts. At a
  response without candidates the error is thrown.
\<close>

theorem first_inline_image_witness:
  "fst (generateFashionImage (image_env image_response) (no_assets\<lparr>top := Some shirt\<rparr>) demo_config [])
     = Inr ''blob:image/jpeg'' \<and>
   fst (generateFashionImage (demo_env []) (no_assets\<lparr>top := Some shirt\<rparr>) demo_config [])
     = Inl (new_Error ''No image data found in response.'')"
proof
  let ?a = "no_assets\<lparr>top := Some shirt\<rparr>"
  let ?ps = "[inline_part ''shirt'' ''image/png'']"
  let ?h1 = "[ReadAsDataURL shirt]"
  let ?req = "\<lambda>e. imageRequest
      (?ps @ [\<lparr>part_inlineData = None,
               part_text = Some (buildCommonPrompt e demo_config (int (length (orderedFiles ?a)))
                                 @ '' Generate a high-quality fashion photograph.'')\<rparr>])
      demo_config"
  have files: "orderedFiles ?a \<noteq> []"
    by (simp add: orderedFiles_def no_assets_def)
  {
    let ?e = "image_env image_response"
    let ?h2 = "?h1 @ [GenerateContent (?req ?e)]"
    have key: "API_KEY ?e = Some ''k''" "''k'' \<noteq> []"
      by (simp_all add: demo_defs)
    have enc: "encodeParts ?e (orderedFiles ?a) [] [] = (Inr ?ps, ?h1)"
      by (simp add: orderedFiles_def demo_defs blobToBase64_def at_index_def
          shirt_def inline_part_def)
    have resp: "retryOperation sleep (callGenerateContent ?e (?req ?e)) 5 2000 ?h1
        = (Inr image_response, ?h2)"
      by (simp add: retryOperation_def retryLoop.simps callGenerateContent_def demo_defs)
    have parts: "responseParts image_response
        = [text_part ''Here is the photograph.'', text_part ''Look:'']
          @ inline_part ''QUJD'' ''image/jpeg'' # [inline_part ''REVG'' ''image/webp'']"
      by (simp add: responseParts_def image_response_def candidateParts_def)
    have "generateFashionImage ?e ?a demo_config []
        = (case atob ?e (template_string (inl_data \<lparr>inl_data = Some ''QUJD'', inl_mimeType = Some ''image/jpeg''\<rparr>)) of
             Inl msg \<Rightarrow> (Inl (InvalidCharacterError msg), ?h2)
           | Inr binary \<Rightarrow>
               (Inr (createObjectURL ?e ?h2
                  \<lparr>blob_bytes = map (\<lambda>c. of_char c mod 256) binary,
                   blob_type = (case inl_mimeType \<lparr>inl_data = Some ''QUJD'', inl_mimeType = Some ''image/jpeg''\<rparr> of
                                  None \<Rightarrow> ''image/png''
                                | Some t \<Rightarrow> if t = [] then ''image/png'' else t)\<rparr>),
                ?h2 @ [CreateObjectURL
                  \<lparr>blob_bytes = map (\<lambda>c. of_char c mod 256) binary,
                   blob_type = (case inl_mimeType \<lparr>inl_data = Some ''QUJD'', inl_mimeType = Some ''image/jpeg''\<rparr> of
                                  None \<Rightarrow> ''image/png''
                                | Some t \<Rightarrow> if t = [] then ''image/png'' else t)\<rparr>]))"
      using parts
      by (intro first_inline_image [OF key files enc resp, THEN conjunct2, rule_format,
            of "[text_part ''Here is the photograph.'', text_part ''Look:'']"
               "inline_part ''QUJD'' ''image/jpeg''" "[inline_part ''REVG'' ''image/webp'']"])
         (simp add: text_part_def inline_part_def)
    then show "fst (generateFashionImage ?e ?a demo_config []) = Inr ''blob:image/jpeg''"
      by (simp add: demo_defs template_string_def demo_atob_def strip_padding_def base64_alphabet_def)
  }
  {
    let ?e = "demo_env []"
    let ?h2 = "?h1 @ [GenerateContent (?req ?e)]"
    have key: "API_KEY ?e = Some ''k''" "''k'' \<noteq> []"
      by (simp_all add: demo_env_def)
    have enc: "encodeParts ?e (orderedFiles ?a) [] [] = (Inr ?ps, ?h1)"
      by (simp add: orderedFiles_def no_assets_def demo_env_def blobToBase64_def at_index_def
          shirt_def inline_part_def)
    have resp: "retryOperation sleep (callGenerateContent ?e (?req ?e)) 5 2000 ?h1
        = (Inr \<lparr>candidates = None\<rparr>, ?h2)"
      by (simp add: retryOperation_def retryLoop.simps callGenerateContent_def demo_env_def)
    from first_inline_image [OF key files enc resp]
    show "fst (generateFashionImage ?e ?a demo_config [])
        = Inl (new_Error ''No image data found in response.'')"
      by (simp add: responseParts_def)
  }
qed

text \<open>
  The claim as stated fails where the first inline payload is not base64: at
  \<open>broken_response\<close> the data ``%%%'' of the first inline part makes \<open>atob\<close> throw, so no
  handle is returned although the next part holds a payload that decodes; and the error
  thrown is not the missing-data error.
\<close>

theorem undecodable_first_image_counterexample:
  "fst (generateFashionImage (image_env broken_response) (no_assets\<lparr>top := Some shirt\<rparr>) demo_config [])
     = Inl (InvalidCharacterError ''The string to be decoded is not correctly encoded.'') \<and>
   InvalidCharacterError ''The string to be decoded is not correctly encoded.''
     \<noteq> new_Error ''No image data found in response.'' \<and>
   responseParts broken_response = [inline_part ''%%%'' ''image/png'', inline_part ''QUJD'' ''image/jpeg'']"
  by (simp add: generateFashionImage_def imageTry_def imageCatch_def callGenerateContent_def
      extractImage_def imageFromInline_def broken_response_def inline_part_def
      responseParts_def candidateParts_def InvalidCharacterError_def
      demo_atob_def strip_padding_def base64_alphabet_def run_defs demo_defs)

subsection \<open>C8: one asset\<close>

text \<open>
  C8. Let exactly one slot be populated, with the file \<open>f\<close>. In every run of
  \<open>generateFashionVideo\<close> that returns, each \<open>generateVideos\<close> call made is a call of the
  single-reference model whose aspect ratio is \<open>config.aspectRatio\<close>, unchanged, and whose
  image has the media type of \<open>f\<close>. With a key and a readable file the call is made: the
  creation stage reads \<open>f\<close> and then issues the request written out below, and a run that
  returns begins with these two events.
\<close>

theorem single_asset_request:
  assumes "orderedFiles assets = [f]"
  shows "(\<forall>r h' params.
            generateFashionVideo e assets config h = Some (r, h') \<and>
            params \<in> set (creationCalls (drop (length h) h'))
            \<longrightarrow> vc_aspectRatio (vp_config params) = aspectRatio config \<and>
                vp_model params = ''veo-3.1-fast-generate-preview'' \<and>
                referenceImages (vp_config params) = None \<and>
                (\<exists>bytes. vp_image params = Some \<lparr>imageBytes = bytes, mimeType = file_type f\<rparr>)) \<and>
         (\<forall>k url.
            API_KEY e = Some k \<and> k \<noteq> [] \<and> readAsDataURL e h f = Inr url
            \<longrightarrow> (\<exists>r t. createVideoOperation e (orderedFiles assets)
                          (buildCommonPrompt e config 1 @ '' Generate a cinematic video.'') config h
                        = (r, h @ ReadAsDataURL f #
                              GenerateVideos
                                \<lparr>vp_model = ''veo-3.1-fast-generate-preview'',
                                 vp_prompt = buildCommonPrompt e config 1 @ '' Generate a cinematic video.'',
                                 vp_image = Some \<lparr>imageBytes = at_index (split_comma url) 1,
                                                  mimeType = file_type f\<rparr>,
                                 vp_config = \<lparr>numberOfVideos = 1, referenceImages = None,
                                              resolution = ''720p'',
                                              vc_aspectRatio = aspectRatio config\<rparr>\<rparr> # t)) \<and>
                (generateFashionVideo e assets config h = None \<or>
                 (\<exists>r t. generateFashionVideo e assets config h
                        = Some (r, h @ ReadAsDataURL f #
                              GenerateVideos
                                \<lparr>vp_model = ''veo-3.1-fast-generate-preview'',
                                 vp_prompt = buildCommonPrompt e config 1 @ '' Generate a cinematic video.'',
                                 vp_image = Some \<lparr>imageBytes = at_index (split_comma url) 1,
                                                  mimeType = file_type f\<rparr>,
                                 vp_config = \<lparr>numberOfVideos = 1, referenceImages = None,
                                              resolution = ''720p'',
                                              vc_aspectRatio = aspectRatio config\<rparr>\<rparr> # t))))"
proof -
  let ?p = "buildCommonPrompt e config 1 @ '' Generate a cinematic video.''"
  obtain r1 h1 where cr: "createVideoOperation e [f] ?p config h = (r1, h1)"
    by (cases "createVideoOperation e [f] ?p config h")
  have cr': "createVideoOperation e (orderedFiles assets)
      (buildCommonPrompt e config (int (length (orderedFiles assets))) @ '' Generate a cinematic video.'')
      config h = (r1, h1)"
    using cr assms by simp
  note shape = createVideoOperation_single [OF cr]
  have first: "vc_aspectRatio (vp_config params) = aspectRatio config \<and>
      vp_model params = ''veo-3.1-fast-generate-preview'' \<and>
      referenceImages (vp_config params) = None \<and>
      (\<exists>bytes. vp_image params = Some \<lparr>imageBytes = bytes, mimeType = file_type f\<rparr>)"
    if run: "generateFashionVideo e assets config h = Some (r, h')"
      and p: "params \<in> set (creationCalls (drop (length h) h'))" for r h' params
  proof -
    from shape show ?thesis
    proof
      assume "\<exists>err. readAsDataURL e h f = Inl err \<and> r1 = Inl err \<and> h1 = h @ [ReadAsDataURL f]"
      then have "h1 = h @ [ReadAsDataURL f]" by blast
      with run_creation_calls [OF run, of r1 "[ReadAsDataURL f]"] cr' p show ?thesis by auto
    next
      assume "\<exists>url t. readAsDataURL e h f = Inr url \<and>
            h1 = h @ ReadAsDataURL f #
                   GenerateVideos (singleImageRequest ?p (at_index (split_comma url) 1) f config) # t \<and>
            list_all (\<lambda>ev. ev = GenerateVideos (singleImageRequest ?p (at_index (split_comma url) 1) f config)
                           \<or> isSleep ev) t"
      then obtain url t where h1: "h1 = h @ ReadAsDataURL f #
                   GenerateVideos (singleImageRequest ?p (at_index (split_comma url) 1) f config) # t"
        and t: "list_all (\<lambda>ev. ev = GenerateVideos (singleImageRequest ?p (at_index (split_comma url) 1) f config)
                           \<or> isSleep ev) t" by blast
      from run_creation_calls [OF run, of r1 "ReadAsDataURL f #
                   GenerateVideos (singleImageRequest ?p (at_index (split_comma url) 1) f config) # t"]
        cr' h1 p creationCalls_only [OF t]
      have "params = singleImageRequest ?p (at_index (split_comma url) 1) f config" by auto
      then show ?thesis by (simp add: singleImageRequest_def)
    qed
  qed
  have second: "(\<exists>r t. createVideoOperation e (orderedFiles assets) ?p config h
                        = (r, h @ ReadAsDataURL f #
                              GenerateVideos
                                \<lparr>vp_model = ''veo-3.1-fast-generate-preview'',
                                 vp_prompt = ?p,
                                 vp_image = Some \<lparr>imageBytes = at_index (split_comma url) 1,
                                                  mimeType = file_type f\<rparr>,
                                 vp_config = \<lparr>numberOfVideos = 1, referenceImages = None,
                                              resolution = ''720p'',
                                              vc_aspectRatio = aspectRatio config\<rparr>\<rparr> # t)) \<and>
                (generateFashionVideo e assets config h = None \<or>
                 (\<exists>r t. generateFashionVideo e assets config h
                        = Some (r, h @ ReadAsDataURL f #
                              GenerateVideos
                                \<lparr>vp_model = ''veo-3.1-fast-generate-preview'',
                                 vp_prompt = ?p,
                                 vp_image = Some \<lparr>imageBytes = at_index (split_comma url) 1,
                                                  mimeType = file_type f\<rparr>,
                                 vp_config = \<lparr>numberOfVideos = 1, referenceImages = None,
                                              resolution = ''720p'',
                                              vc_aspectRatio = aspectRatio config\<rparr>\<rparr> # t)))"
    if k: "API_KEY e = Some k" "k \<noteq> []" and url: "readAsDataURL e h f = Inr url" for k url
  proof -
    from shape url obtain t where h1: "h1 = h @ ReadAsDataURL f #
        GenerateVideos (singleImageRequest ?p (at_index (split_comma url) 1) f config) # t" by auto
    have files: "orderedFiles assets \<noteq> []" using assms by simp
    from run_begins_with_creation [OF k files cr'] h1 cr assms
    show ?thesis by (auto simp: singleImageRequest_def)
  qed
  from first second show ?thesis by blast
qed

text \<open>
  The theorem at the two aspect ratios: a shirt with ``9:16'' and boots with ``16:9''. Each
  run makes one creation call, with the configured ratio, and returns the object URL.
\<close>

theorem single_asset_request_witness:
  "map_option (\<lambda>(r, h'). (r, map (\<lambda>p. vc_aspectRatio (vp_config p)) (creationCalls h')))
     (generateFashionVideo (demo_env [Inr (finished_operation ''https://v/1?alt=media'')])
        (no_assets\<lparr>top := Some shirt\<rparr>) demo_config [])
     = Some (Inr ''blob:video/mp4'', [''9:16'']) \<and>
   map_option (\<lambda>(r, h'). (r, map (\<lambda>p. vc_aspectRatio (vp_config p)) (creationCalls h')))
     (generateFashionVideo (demo_env [Inr (finished_operation ''https://v/1?alt=media'')])
        (no_assets\<lparr>shoes := Some boots\<rparr>) (demo_config\<lparr>aspectRatio := ''16:9''\<rparr>) [])
     = Some (Inr ''blob:video/mp4'', [''16:9''])"
  using single_asset_request [of "no_assets\<lparr>top := Some shirt\<rparr>" shirt
      "demo_env [Inr (finished_operation ''https://v/1?alt=media'')]" demo_config "[]"]
    single_asset_request [of "no_assets\<lparr>shoes := Some boots\<rparr>" boots
      "demo_env [Inr (finished_operation ''https://v/1?alt=media'')]" "demo_config\<lparr>aspectRatio := ''16:9''\<rparr>" "[]"]
  by (simp add: run_defs demo_defs singleImageRequest_def demo_config_def)

subsection \<open>C9: the outfit phrasing of the prompt\<close>

text \<open>
  Occurrences of a phrase in a text put together from fixed and free pieces. A two-character
  window that does not occur in the phrase cannot lie inside an occurrence, so an
  occurrence in \<open>x @ d1 # d2 # b\<close> lies in \<open>x\<close> or behind \<open>d1\<close>, unless it ends at \<open>d1\<close>.
\<close>

lemma sublist_before_window:
  assumes "\<not> sublist [d1, d2] P" and "last P \<noteq> d1" and "P \<noteq> []"
  shows "sublist P (x @ d1 # d2 # b) \<longleftrightarrow> sublist P x \<or> sublist P (d2 # b)"
proof
  assume "sublist P x \<or> sublist P (d2 # b)"
  then show "sublist P (x @ d1 # d2 # b)"
  proof
    assume "sublist P x"
    then show ?thesis by (auto simp: sublist_append)
  next
    assume "sublist P (d2 # b)"
    then have "sublist P (d1 # d2 # b)" by (simp add: sublist_Cons_right)
    then show ?thesis by (auto simp: sublist_append)
  qed
next
  assume "sublist P (x @ d1 # d2 # b)"
  then consider "sublist P x" | "sublist P (d1 # d2 # b)"
    | p1 p2 where "P = p1 @ p2" "suffix p1 x" "prefix p2 (d1 # d2 # b)"
    by (auto simp: sublist_append)
  then show "sublist P x \<or> sublist P (d2 # b)"
  proof cases
    case 1
    then show ?thesis by simp
  next
    case 2
    then have "prefix P (d1 # d2 # b) \<or> sublist P (d2 # b)"
      by (simp add: sublist_Cons_right)
    moreover have "\<not> prefix P (d1 # d2 # b)"
    proof
      assume "prefix P (d1 # d2 # b)"
      with assms(3) obtain r where P: "P = d1 # r" "prefix r (d2 # b)"
        by (auto simp: prefix_Cons)
      show False
      proof (cases r)
        case Nil
        with P assms(2) show False by simp
      next
        case (Cons y ys)
        with P have "P = [d1, d2] @ ys" by (auto simp: prefix_Cons)
        then have "sublist [d1, d2] P" by (metis sublist_append_rightI)
        with assms(1) show False by simp
      qed
    qed
    ultimately show ?thesis by simp
  next
    case 3
    show ?thesis
    proof (cases p2)
      case Nil
      with 3 show ?thesis by (auto intro: suffix_imp_sublist)
    next
      case (Cons y ys)
      with 3 have y: "y = d1" and ys: "prefix ys (d2 # b)" by (auto simp: prefix_Cons)
      show ?thesis
      proof (cases ys)
        case Nil
        with Cons y 3(1) have "last P = d1" by simp
        with assms(2) show ?thesis by simp
      next
        case (Cons z zs)
        with ys have "z = d2" by (auto simp: prefix_Cons)
        with Cons \<open>p2 = y # ys\<close> y 3(1) have "P = p1 @ [d1, d2] @ zs" by simp
        then have "sublist [d1, d2] P" by (metis sublist_appendI)
        with assms(1) show ?thesis by simp
      qed
    qed
  qed
qed

lemmas walk = sublist_Cons_right sublist_before_window

lemma prompt_shape:
  "buildCommonPrompt e config n =
     ''Fashion content. '' @ baseModelDesc e config @ '' with a '' @ bodyAdjective e config @
     '' body type in a '' @ style config @ '' setting. '' @
     (if n > 1
      then ''The model is wearing the complete outfit composed of the provided clothing items (Top, Bottom, Shoes, and/or Accessories). ''
      else ''The model is wearing the exact outfit shown in the input image. '') @
     materialInstruction config @ ''Camera Angle: '' @ cameraAngle config @ ''. '' @ fidelity"
  by (simp add: buildCommonPrompt_def Let_def fidelity_def)

lemma fidelity_free:
  "\<not> sublist ''complete outfit'' (CHR '' '' # fidelity)"
  "\<not> sublist ''exact outfit'' (CHR '' '' # fidelity)"
  by (simp_all add: fidelity_def sublist_Cons_right)

lemma materialInstruction_free:
  "\<not> sublist ''complete outfit'' (materialDesc config)
     \<Longrightarrow> \<not> sublist ''complete outfit'' (materialInstruction config)"
  "\<not> sublist ''exact outfit'' (materialDesc config)
     \<Longrightarrow> \<not> sublist ''exact outfit'' (materialInstruction config)"
  by (simp_all add: materialInstruction_def walk)

text \<open>
  The six descriptions and the four adjectives of the tables contain neither phrase; a
  text that the key reaches by inheritance is the environment's, and is assumed free of it.
\<close>

lemma table_free:
  "map_of MODEL_DESCRIPTIONS key = Some d \<Longrightarrow> \<not> sublist ''complete outfit'' d"
  "map_of MODEL_DESCRIPTIONS key = Some d \<Longrightarrow> \<not> sublist ''exact outfit'' d"
  "map_of BODY_TYPE_PROMPTS key = Some d \<Longrightarrow> \<not> sublist ''complete outfit'' d"
  "map_of BODY_TYPE_PROMPTS key = Some d \<Longrightarrow> \<not> sublist ''exact outfit'' d"
  by (auto simp: MODEL_DESCRIPTIONS_def BODY_TYPE_PROMPTS_def sublist_Cons_right
      split: if_splits)

lemma baseModelDesc_free:
  "\<not> sublist ''complete outfit'' (gender config)
     \<Longrightarrow> \<not> inheritedMentions e (modelId config) ''complete outfit''
     \<Longrightarrow> \<not> sublist ''complete outfit'' (baseModelDesc e config)"
  "\<not> sublist ''exact outfit'' (gender config)
     \<Longrightarrow> \<not> inheritedMentions e (modelId config) ''exact outfit''
     \<Longrightarrow> \<not> sublist ''exact outfit'' (baseModelDesc e config)"
  by (auto simp: baseModelDesc_def lookup_def inheritedMentions_def str_includes_sublist
      table_free walk split: option.splits)

lemma bodyAdjective_free:
  "\<not> inheritedMentions e (bodyType config) ''complete outfit''
     \<Longrightarrow> \<not> sublist ''complete outfit'' (bodyAdjective e config)"
  "\<not> inheritedMentions e (bodyType config) ''exact outfit''
     \<Longrightarrow> \<not> sublist ''exact outfit'' (bodyAdjective e config)"
  by (auto simp: bodyAdjective_def lookup_def inheritedMentions_def str_includes_sublist
      table_free walk split: option.splits)

lemma outfit_text:
  assumes "\<not> sublist P x1" "\<not> sublist P x2" "\<not> sublist P x3" "\<not> sublist P x4" "\<not> sublist P x5"
    and "\<not> sublist P (CHR '' '' # t)"
    and "P = ''complete outfit'' \<or> P = ''exact outfit''"
  shows "sublist P
     (''Fashion content. '' @ x1 @ '' with a '' @ x2 @ '' body type in a '' @ x3 @ '' setting. '' @
      ''The model is wearing the complete outfit composed of the provided clothing items (Top, Bottom, Shoes, and/or Accessories). '' @
      x4 @ ''Camera Angle: '' @ x5 @ ''. '' @ t)
     \<longleftrightarrow> P = ''complete outfit''"
   and "sublist P
     (''Fashion content. '' @ x1 @ '' with a '' @ x2 @ '' body type in a '' @ x3 @ '' setting. '' @
      ''The model is wearing the exact outfit shown in the input image. '' @
      x4 @ ''Camera Angle: '' @ x5 @ ''. '' @ t)
     \<longleftrightarrow> P = ''exact outfit''"
  using assms(7)
proof -
  show "sublist P
     (''Fashion content. '' @ x1 @ '' with a '' @ x2 @ '' body type in a '' @ x3 @ '' setting. '' @
      ''The model is wearing the complete outfit composed of the provided clothing items (Top, Bottom, Shoes, and/or Accessories). '' @
      x4 @ ''Camera Angle: '' @ x5 @ ''. '' @ t)
     \<longleftrightarrow> P = ''complete outfit''"
    using assms(7)
  proof
    assume P: "P = ''complete outfit''"
    show ?thesis using assms(1-6) unfolding P by (simp add: walk)
  next
    assume P: "P = ''exact outfit''"
    show ?thesis using assms(1-6) unfolding P by (simp add: walk)
  qed
  show "sublist P
     (''Fashion content. '' @ x1 @ '' with a '' @ x2 @ '' body type in a '' @ x3 @ '' setting. '' @
      ''The model is wearing the exact outfit shown in the input image. '' @
      x4 @ ''Camera Angle: '' @ x5 @ ''. '' @ t)
     \<longleftrightarrow> P = ''exact outfit''"
    using assms(7)
  proof
    assume P: "P = ''complete outfit''"
    show ?thesis using assms(1-6) unfolding P by (simp add: walk)
  next
    assume P: "P = ''exact outfit''"
    show ?thesis using assms(1-6) unfolding P by (simp add: walk)
  qed
qed

lemma sublist_in_right: "sublist xs zs \<Longrightarrow> sublist xs (ys @ zs)"
  by (simp add: sublist_append)

lemma sublist_in_left: "sublist xs ys \<Longrightarrow> sublist xs (ys @ zs)"
  by (simp add: sublist_append)

lemma in_eighth_piece:
  "sublist P s \<Longrightarrow> sublist P (a @ x1 @ b @ x2 @ c @ x3 @ d @ s @ rest)"
  by (rule sublist_in_right, rule sublist_in_right, rule sublist_in_right, rule sublist_in_right,
      rule sublist_in_right, rule sublist_in_right, rule sublist_in_right, erule sublist_in_left)

lemma complete_in_prompt:
  "1 < n \<Longrightarrow> sublist ''complete outfit'' (buildCommonPrompt e config n)"
proof -
  assume n: "1 < n"
  have "sublist ''complete outfit''
      ''The model is wearing the complete outfit composed of the provided clothing items (Top, Bottom, Shoes, and/or Accessories). ''"
    by (simp add: sublist_Cons_right)
  then show ?thesis
    unfolding prompt_shape using n
    by (simp only: if_True) (erule in_eighth_piece)
qed

lemma exact_in_prompt:
  "\<not> 1 < n \<Longrightarrow> sublist ''exact outfit'' (buildCommonPrompt e config n)"
proof -
  assume n: "\<not> 1 < n"
  have "sublist ''exact outfit''
      ''The model is wearing the exact outfit shown in the input image. ''"
    by (simp add: sublist_Cons_right)
  then show ?thesis
    unfolding prompt_shape using n
    by (simp only: if_False) (erule in_eighth_piece)
qed

text \<open>
  C9, as amended. For every environment, configuration and count of at least 1,
  \<open>buildCommonPrompt\<close> yields a string, of the shape ``Fashion content. \<dots>'' followed by the
  fidelity paragraph. With a count above 1 the prompt contains ``complete outfit'', and
  with a count of 1 it contains ``exact outfit''. Conversely, where none of the texts the
  prompt embeds contains the phrase (the gender, style, material description and camera
  angle of the configuration, and the text an unknown model or body-type key reaches by
  inheritance in the two tables), the prompt contains ``complete outfit'' only when the
  count exceeds 1, and ``exact outfit'' only when the count is 1.
\<close>

theorem prompt_outfit_phrasing:
  assumes "1 \<le> n"
  shows "(\<exists>body. buildCommonPrompt e config n = ''Fashion content. '' @ body @ fidelity) \<and>
         (1 < n \<longrightarrow> str_includes (buildCommonPrompt e config n) ''complete outfit'') \<and>
         (n = 1 \<longrightarrow> str_includes (buildCommonPrompt e config n) ''exact outfit'') \<and>
         (\<not> mentions e config ''complete outfit''
            \<longrightarrow> (str_includes (buildCommonPrompt e config n) ''complete outfit'' \<longleftrightarrow> 1 < n)) \<and>
         (\<not> mentions e config ''exact outfit''
            \<longrightarrow> (str_includes (buildCommonPrompt e config n) ''exact outfit'' \<longleftrightarrow> n = 1))"
proof (intro conjI impI)
  have "buildCommonPrompt e config n =
      ''Fashion content. '' @
      (baseModelDesc e config @ '' with a '' @ bodyAdjective e config @
       '' body type in a '' @ style config @ '' setting. '' @
       (if n > 1
        then ''The model is wearing the complete outfit composed of the provided clothing items (Top, Bottom, Shoes, and/or Accessories). ''
        else ''The model is wearing the exact outfit shown in the input image. '') @
       materialInstruction config @ ''Camera Angle: '' @ cameraAngle config @ ''. '') @ fidelity"
    unfolding prompt_shape by simp
  then show "\<exists>body. buildCommonPrompt e config n = ''Fashion content. '' @ body @ fidelity"
    by blast
next
  assume "1 < n"
  then show "str_includes (buildCommonPrompt e config n) ''complete outfit''"
    unfolding str_includes_sublist by (rule complete_in_prompt)
next
  assume "n = 1"
  then show "str_includes (buildCommonPrompt e config n) ''exact outfit''"
    unfolding str_includes_sublist by (intro exact_in_prompt) simp
next
  assume m: "\<not> mentions e config ''complete outfit''"
  then have free: "\<not> sublist ''complete outfit'' (baseModelDesc e config)"
      "\<not> sublist ''complete outfit'' (bodyAdjective e config)"
      "\<not> sublist ''complete outfit'' (style config)"
      "\<not> sublist ''complete outfit'' (materialInstruction config)"
      "\<not> sublist ''complete outfit'' (cameraAngle config)"
    by (simp_all add: mentions_def str_includes_sublist baseModelDesc_free bodyAdjective_free
        materialInstruction_free)
  show "str_includes (buildCommonPrompt e config n) ''complete outfit'' \<longleftrightarrow> 1 < n"
    unfolding str_includes_sublist prompt_shape
    using outfit_text [OF free fidelity_free(1)] by (cases "1 < n") simp_all
next
  assume m: "\<not> mentions e config ''exact outfit''"
  then have free: "\<not> sublist ''exact outfit'' (baseModelDesc e config)"
      "\<not> sublist ''exact outfit'' (bodyAdjective e config)"
      "\<not> sublist ''exact outfit'' (style config)"
      "\<not> sublist ''exact outfit'' (materialInstruction config)"
      "\<not> sublist ''exact outfit'' (cameraAngle config)"
    by (simp_all add: mentions_def str_includes_sublist baseModelDesc_free bodyAdjective_free
        materialInstruction_free)
  show "str_includes (buildCommonPrompt e config n) ''exact outfit'' \<longleftrightarrow> n = 1"
    unfolding str_includes_sublist prompt_shape
    using outfit_text [OF free fidelity_free(2)] assms by (cases "1 < n") simp_all
qed

text \<open>
  The theorem at \<open>demo_config\<close>, for one asset and for four, and at a configuration whose
  model key is ``constructor'', which the table answers with an inherited function.
\<close>

theorem prompt_outfit_phrasing_witness:
  "str_includes (buildCommonPrompt (demo_env []) demo_config 1) ''exact outfit'' \<and>
   \<not> str_includes (buildCommonPrompt (demo_env []) demo_config 1) ''complete outfit'' \<and>
   str_includes (buildCommonPrompt (demo_env []) demo_config 4) ''complete outfit'' \<and>
   \<not> str_includes (buildCommonPrompt (demo_env []) demo_config 4) ''exact outfit'' \<and>
   \<not> str_includes (buildCommonPrompt (demo_env []) (demo_config\<lparr>modelId := ''constructor''\<rparr>) 1)
        ''complete outfit''"
proof -
  have "\<not> mentions (demo_env []) demo_config ''complete outfit''"
    "\<not> mentions (demo_env []) demo_config ''exact outfit''"
    "\<not> mentions (demo_env []) (demo_config\<lparr>modelId := ''constructor''\<rparr>) ''complete outfit''"
    by (simp_all add: mentions_def inheritedMentions_def demo_env_def demo_inherited_def
        demo_config_def sublist_Cons_right)
  then show ?thesis
    using prompt_outfit_phrasing [of 1 "demo_env []" demo_config]
      prompt_outfit_phrasing [of 4 "demo_env []" demo_config]
      prompt_outfit_phrasing [of 1 "demo_env []" "demo_config\<lparr>modelId := ''constructor''\<rparr>"]
    by simp
qed

lemma material_in_prompt: "sublist (materialInstruction config) (buildCommonPrompt e config n)"
  unfolding prompt_shape by (intro sublist_in_right sublist_append_rightI)

lemma camera_in_prompt: "sublist (cameraAngle config) (buildCommonPrompt e config n)"
  unfolding prompt_shape by (intro sublist_in_right sublist_append_rightI)

text \<open>
  The claim as stated fails where the user's text contains the phrase: with two assets
  and the material description ``exact outfit'' the prompt contains ``exact outfit'', and
  with one asset and the camera angle ``complete outfit'' it contains ``complete outfit''.
\<close>

theorem prompt_free_text_counterexample:
  "str_includes (buildCommonPrompt (demo_env []) (demo_config\<lparr>materialDesc := ''exact outfit''\<rparr>) 2)
     ''exact outfit'' \<and>
   str_includes (buildCommonPrompt (demo_env []) (demo_config\<lparr>cameraAngle := ''complete outfit''\<rparr>) 1)
     ''complete outfit''"
proof
  have "sublist ''exact outfit'' (materialInstruction (demo_config\<lparr>materialDesc := ''exact outfit''\<rparr>))"
    by (simp add: materialInstruction_def sublist_Cons_right)
  then show "str_includes (buildCommonPrompt (demo_env []) (demo_config\<lparr>materialDesc := ''exact outfit''\<rparr>) 2)
      ''exact outfit''"
    unfolding str_includes_sublist using material_in_prompt sublist_order.order.trans by blast
next
  have "sublist ''complete outfit'' (cameraAngle (demo_config\<lparr>cameraAngle := ''complete outfit''\<rparr>))"
    by simp
  then show "str_includes (buildCommonPrompt (demo_env []) (demo_config\<lparr>cameraAngle := ''complete outfit''\<rparr>) 1)
      ''complete outfit''"
    unfolding str_includes_sublist using camera_in_prompt sublist_order.order.trans by blast
qed

subsection \<open>C10: checkApiKeySelection\<close>

text \<open>
  C10. When the host provides no \<open>window.aistudio\<close>, or one without \<open>hasSelectedApiKey\<close>,
  \<open>checkApiKeySelection\<close> resolves to \<open>true\<close>.
\<close>

theorem checkApiKeySelection_fallback:
  assumes "aistudio w = None \<or> (\<exists>studio. aistudio w = Some studio \<and> hasSelectedApiKey studio = None)"
  shows "checkApiKeySelection w = Inr True"
  using assms by (auto simp: checkApiKeySelection_def)

theorem checkApiKeySelection_fallback_witness:
  "checkApiKeySelection \<lparr>aistudio = None\<rparr> = Inr True \<and>
   checkApiKeySelection \<lparr>aistudio = Some \<lparr>hasSelectedApiKey = None\<rparr>\<rparr> = Inr True"
  using checkApiKeySelection_fallback [of "\<lparr>aistudio = None\<rparr>"]
    checkApiKeySelection_fallback [of "\<lparr>aistudio = Some \<lparr>hasSelectedApiKey = None\<rparr>\<rparr>"]
  by simp

end
